theory Spec2Isabelle
  imports Main "HOL-Library.Char_ord" "HOL-Library.List_Lexorder" "HOL-Library.Multiset"
begin

section \<open>Block data model (types/block.ts)\<close>

datatype BlockKind = pinned | reference | memory | state | tool_output | history | turn

datatype SensitivityLevel = public | internal | restricted

text \<open>
  Payloads are \<open>unknown\<close> in the source. They are modelled as JSON values; an object is
  the list of its properties in enumeration order, which is what \<open>Object.keys\<close> and
  \<open>JSON.stringify\<close> observe. A string is the list of its UTF-16 code units, of which
  those below 256 are modelled (a \<open>char\<close> is such a code unit). A number is an integer.
\<close>

datatype json =
    JNull
  | JBool bool
  | JNum int
  | JStr string
  | JArr "json list"
  | JObj "(string \<times> json) list"

text \<open>
  \<open>BlockMeta\<close> has the four fields of \<open>StableMetaSubset\<close> and the volatile ones;
  optional fields are \<open>None\<close> when absent.
\<close>

record StableMetaSubset =
  kind :: BlockKind
  sensitivity :: SensitivityLevel
  codecId :: string
  codecVersion :: string

record BlockMeta = StableMetaSubset +
  createdAt :: int
  source :: "string option"
  tags :: "string list option"

record ContextBlock =
  blockHash :: string
  meta :: BlockMeta
  payload :: json

section \<open>JSON serialization\<close>

text \<open>\<open>Array.prototype.join\<close>.\<close>

fun join :: "string \<Rightarrow> string list \<Rightarrow> string" where
  "join sep [] = []"
| "join sep [x] = x"
| "join sep (x # y # ys) = x @ sep @ join sep (y # ys)"

text \<open>
  \<open>JSON.stringify\<close> on the values above: a string is printed with the quote, the
  backslash and the control characters escaped; an object prints its properties in
  enumeration order; an integer is printed in decimal, digit by digit, which is what
  JavaScript prints for the safe integers (of magnitude below \<open>2^53\<close>; a larger number is
  rounded to a double and, from \<open>10^21\<close> on, printed with an exponent). The predicate
  \<open>jsValue\<close> below holds of the values on which the serialization is JavaScript's.
\<close>

definition digitChar :: "nat \<Rightarrow> char" where
  "digitChar d = ''0123456789'' ! d"

fun natToString :: "nat \<Rightarrow> string" where
  "natToString n =
     (if n < 10 then [digitChar n] else natToString (n div 10) @ [digitChar (n mod 10)])"

declare natToString.simps [simp del]

definition numberToString :: "int \<Rightarrow> string" where
  "numberToString i = (if i < 0 then ''-'' @ natToString (nat (- i)) else natToString (nat i))"

definition hexDigit :: "nat \<Rightarrow> char" where
  "hexDigit d = ''0123456789abcdef'' ! d"

definition escapeChar :: "char \<Rightarrow> string" where
  "escapeChar c =
     (if c = CHR 0x22 then [CHR 0x5C, CHR 0x22]
      else if c = CHR 0x5C then [CHR 0x5C, CHR 0x5C]
      else if c = CHR 0x08 then [CHR 0x5C, CHR ''b'']
      else if c = CHR 0x0C then [CHR 0x5C, CHR ''f'']
      else if c = CHR 0x0A then [CHR 0x5C, CHR ''n'']
      else if c = CHR 0x0D then [CHR 0x5C, CHR ''r'']
      else if c = CHR 0x09 then [CHR 0x5C, CHR ''t'']
      else if (of_char c :: nat) < 32
        then [CHR 0x5C, CHR ''u'', CHR ''0'', CHR ''0'',
              hexDigit ((of_char c :: nat) div 16), hexDigit ((of_char c :: nat) mod 16)]
      else [c])"

definition quote :: "string \<Rightarrow> string" where
  "quote s = [CHR 0x22] @ concat (map escapeChar s) @ [CHR 0x22]"

fun JSON_stringify :: "json \<Rightarrow> string" where
  "JSON_stringify JNull = ''null''"
| "JSON_stringify (JBool b) = (if b then ''true'' else ''false'')"
| "JSON_stringify (JNum n) = numberToString n"
| "JSON_stringify (JStr s) = quote s"
| "JSON_stringify (JArr vs) = ''['' @ join '','' (map JSON_stringify vs) @ '']''"
| "JSON_stringify (JObj kvs) =
     ''{'' @ join '','' (map (\<lambda>(k, v). quote k @ '':'' @ JSON_stringify v) kvs) @ ''}''"

text \<open>
  Property access \<open>v.k\<close>, \<open>None\<close> for \<open>undefined\<close>; the nullish default \<open>a ?? b\<close>; and an
  object literal, in which a property whose value is \<open>undefined\<close> is left out, as
  \<open>JSON.stringify\<close> leaves it out.
\<close>

definition getProp :: "json \<Rightarrow> string \<Rightarrow> json option" where
  "getProp v k = (case v of JObj kvs \<Rightarrow> map_of kvs k | _ \<Rightarrow> None)"

fun nullish :: "json option \<Rightarrow> json \<Rightarrow> json" where
  "nullish None d = d"
| "nullish (Some JNull) d = d"
| "nullish (Some v) d = v"

text \<open>JavaScript's truth value of a JSON value.\<close>

fun truthy :: "json \<Rightarrow> bool" where
  "truthy JNull = False"
| "truthy (JBool b) = b"
| "truthy (JNum n) = (n \<noteq> 0)"
| "truthy (JStr s) = (s \<noteq> [])"
| "truthy (JArr vs) = True"
| "truthy (JObj kvs) = True"

fun objLit :: "(string \<times> json option) list \<Rightarrow> (string \<times> json) list" where
  "objLit [] = []"
| "objLit ((k, None) # rest) = objLit rest"
| "objLit ((k, Some v) # rest) = (k, v) # objLit rest"

text \<open>
  The order in which JavaScript enumerates the properties of an object that were created
  in a given order: first the keys that are array indices (the decimal numerals, without
  leading zero, of the integers from 0 to \<open>2^32 - 2\<close>) in ascending numeric order, then the
  other keys in the order of their creation.
\<close>

definition isDigit :: "char \<Rightarrow> bool" where
  "isDigit c \<longleftrightarrow> 48 \<le> (of_char c :: nat) \<and> (of_char c :: nat) \<le> 57"

definition digitsValue :: "string \<Rightarrow> nat" where
  "digitsValue k = foldl (\<lambda>n c. 10 * n + ((of_char c :: nat) - 48)) 0 k"

definition isArrayIndex :: "string \<Rightarrow> bool" where
  "isArrayIndex k \<longleftrightarrow>
     k \<noteq> [] \<and> list_all isDigit k \<and> (k = ''0'' \<or> hd k \<noteq> CHR ''0'')
     \<and> digitsValue k < 4294967295"

definition enumerationOrder :: "(string \<times> 'a) list \<Rightarrow> (string \<times> 'a) list" where
  "enumerationOrder kvs =
     sort_key (\<lambda>kv. digitsValue (fst kv)) (filter (\<lambda>kv. isArrayIndex (fst kv)) kvs)
     @ filter (\<lambda>kv. \<not> isArrayIndex (fst kv)) kvs"

text \<open>
  The JSON values that stand for JavaScript values: every number is a safe integer, and
  every object has distinct keys, listed in enumeration order.
\<close>

fun jsValue :: "json \<Rightarrow> bool" where
  "jsValue JNull = True"
| "jsValue (JBool b) = True"
| "jsValue (JNum n) = (\<bar>n\<bar> < 9007199254740992)"
| "jsValue (JStr s) = True"
| "jsValue (JArr vs) = list_all jsValue vs"
| "jsValue (JObj kvs) =
     (distinct (map fst kvs) \<and> enumerationOrder kvs = kvs \<and> list_all jsValue (map snd kvs))"

section \<open>Base codec utilities (codecs/base.ts)\<close>

text \<open>
  \<open>sortObjectKeys\<close>: the keys of the object, sorted, each with its value; a value that is
  an object and not an array is sorted in turn, any other value (an array with all it
  holds included) is copied as it is. The keys of an object are distinct, so the lookup
  always finds the value. The properties of the result are created in the sorted order of
  the keys, so they are enumerated in \<open>enumerationOrder\<close> of that.
\<close>

function sortObjectKeys :: "(string \<times> json) list \<Rightarrow> (string \<times> json) list" where
  "sortObjectKeys obj =
     enumerationOrder
       (map (\<lambda>key. (key, (case map_of obj key of
                             Some (JObj inner) \<Rightarrow> JObj (sortObjectKeys inner)
                           | Some v \<Rightarrow> v
                           | None \<Rightarrow> JNull)))
            (sort (map fst obj)))"
  by pat_completeness auto
termination
proof (relation "measure (\<lambda>obj. size (JObj obj))")
  show "wf (measure (\<lambda>obj. size (JObj obj)))" by simp
next
  fix obj :: "(string \<times> json) list" and key x2 inner
  assume "map_of obj key = Some x2" "x2 = JObj inner"
  then have "(key, JObj inner) \<in> set obj" by (simp add: map_of_SomeD)
  then show "(inner, obj) \<in> measure (\<lambda>obj. size (JObj obj))"
    by (induction obj) auto
qed

declare sortObjectKeys.simps [simp del]

section \<open>Codecs (types/codec.ts, codecs/*.codec.ts)\<close>

datatype error =
    InvalidBlockKind BlockKind
  | TypeError string

text \<open>
  \<open>sortObjectKeys\<close> is declared on objects. Called on a value of another type, as
  \<open>sortObjectKeys(payload.inputSchema)\<close> can be, it starts from \<open>Object.keys\<close> of the
  value: that throws on \<open>undefined\<close> and \<open>null\<close>, lists the indices of an array and of a
  string, and is empty for a number and a boolean.
\<close>

definition objectEntries :: "json option \<Rightarrow> error + (string \<times> json) list" where
  "objectEntries v =
     (case v of
        None \<Rightarrow> Inl (TypeError ''Cannot convert undefined or null to object'')
      | Some JNull \<Rightarrow> Inl (TypeError ''Cannot convert undefined or null to object'')
      | Some (JObj kvs) \<Rightarrow> Inr kvs
      | Some (JArr vs) \<Rightarrow> Inr (zip (map natToString [0..<length vs]) vs)
      | Some (JStr s) \<Rightarrow> Inr (zip (map natToString [0..<length s]) (map (\<lambda>c. JStr [c]) s))
      | Some _ \<Rightarrow> Inr [])"

text \<open>
  Of a codec only the identity and \<open>canonicalize\<close> take part in hashing. A payload is
  typed in the source; on a value of another shape \<open>canonicalize\<close> throws where
  JavaScript would.
\<close>

record Codec =
  c_codecId :: string
  c_version :: string
  canonicalize :: "json \<Rightarrow> error + json"

fun mapE :: "('a \<Rightarrow> error + 'b) \<Rightarrow> 'a list \<Rightarrow> error + 'b list" where
  "mapE f [] = Inr []"
| "mapE f (x # xs) =
     (case f x of
        Inl e \<Rightarrow> Inl e
      | Inr y \<Rightarrow> (case mapE f xs of Inl e \<Rightarrow> Inl e | Inr ys \<Rightarrow> Inr (y # ys)))"

definition RedactedStubCodec :: Codec where
  "RedactedStubCodec =
     \<lparr>c_codecId = ''redacted-stub'',
      c_version = ''1.0.0'',
      canonicalize = (\<lambda>payload.
        if payload = JNull then Inl (TypeError ''Cannot read properties of null'')
        else Inr (JObj (sortObjectKeys (objLit
               [(''originalBlockHash'', getProp payload ''originalBlockHash''),
                (''reason'', getProp payload ''reason''),
                (''placeholder'',
                   Some (nullish (getProp payload ''placeholder'') (JStr ''[REDACTED]'')))]))))\<rparr>"

text \<open>
  \<open>String.prototype.trim\<close>: the white space and line terminators among the code units
  below 256 are the tab, the line feed, the vertical tab, the form feed, the carriage
  return, the space and the no-break space.
\<close>

definition isSpace :: "char \<Rightarrow> bool" where
  "isSpace c \<longleftrightarrow>
     c \<in> {CHR 0x20, CHR 0x09, CHR 0x0A, CHR 0x0B, CHR 0x0C, CHR 0x0D, CHR 0xA0}"

definition trim :: "string \<Rightarrow> string" where
  "trim s = rev (dropWhile isSpace (rev (dropWhile isSpace s)))"

definition SystemRulesCodec :: Codec where
  "SystemRulesCodec =
     \<lparr>c_codecId = ''system-rules'',
      c_version = ''1.0.0'',
      canonicalize = (\<lambda>payload.
        case getProp payload ''text'' of
          Some (JStr text) \<Rightarrow>
            Inr (JObj (sortObjectKeys
              [(''text'', JStr (trim text)),
               (''priority'', nullish (getProp payload ''priority'') (JNum 0)),
               (''cacheable'', nullish (getProp payload ''cacheable'') (JBool False))]))
        | _ \<Rightarrow> Inl (TypeError ''payload.text.trim is not a function''))\<rparr>"

definition canonicalMessage :: "json \<Rightarrow> error + json" where
  "canonicalMessage msg =
     (if msg = JNull then Inl (TypeError ''Cannot read properties of null'')
      else Inr (JObj (objLit [(''role'', getProp msg ''role''), (''content'', getProp msg ''content'')])))"

definition ConversationHistoryCodec :: Codec where
  "ConversationHistoryCodec =
     \<lparr>c_codecId = ''conversation-history'',
      c_version = ''1.0.0'',
      canonicalize = (\<lambda>payload.
        case getProp payload ''messages'' of
          Some (JArr messages) \<Rightarrow>
            (case mapE canonicalMessage messages of
               Inl e \<Rightarrow> Inl e
             | Inr canonicalMessages \<Rightarrow>
                 Inr (JObj (sortObjectKeys
                   [(''messages'', JArr canonicalMessages),
                    (''summary'', nullish (getProp payload ''summary'') JNull)])))
        | _ \<Rightarrow> Inl (TypeError ''payload.messages.map is not a function''))\<rparr>"

definition ToolSchemaCodec :: Codec where
  "ToolSchemaCodec =
     \<lparr>c_codecId = ''tool-schema'',
      c_version = ''1.0.0'',
      canonicalize = (\<lambda>payload.
        case getProp payload ''description'' of
          Some (JStr description) \<Rightarrow>
            (case objectEntries (getProp payload ''inputSchema'') of
               Inl e \<Rightarrow> Inl e
             | Inr inputSchema \<Rightarrow>
                 Inr (JObj (sortObjectKeys (objLit
                   [(''name'', getProp payload ''name''),
                    (''description'', Some (JStr (trim description))),
                    (''inputSchema'', Some (JObj (sortObjectKeys inputSchema))),
                    (''cacheable'',
                       Some (nullish (getProp payload ''cacheable'') (JBool False)))]))))
        | _ \<Rightarrow> Inl (TypeError ''payload.description.trim is not a function''))\<rparr>"

definition StructuredReferenceCodec :: Codec where
  "StructuredReferenceCodec =
     \<lparr>c_codecId = ''structured-reference'',
      c_version = ''1.0.0'',
      canonicalize = (\<lambda>payload.
        case getProp payload ''title'' of
          Some (JStr title) \<Rightarrow>
            Inr (JObj (sortObjectKeys (objLit
              [(''title'', Some (JStr (trim title))),
               (''content'', getProp payload ''content''),
               (''sourceUrl'', Some (nullish (getProp payload ''sourceUrl'') JNull)),
               (''mimeType'', Some (nullish (getProp payload ''mimeType'') JNull)),
               (''cacheable'', Some (nullish (getProp payload ''cacheable'') (JBool False)))])))
        | _ \<Rightarrow> Inl (TypeError ''payload.title.trim is not a function''))\<rparr>"

definition ToolOutputCodec :: Codec where
  "ToolOutputCodec =
     \<lparr>c_codecId = ''tool-output'',
      c_version = ''1.0.0'',
      canonicalize = (\<lambda>payload.
        if payload = JNull then Inl (TypeError ''Cannot read properties of null'')
        else Inr (JObj (sortObjectKeys (objLit
               [(''toolName'', getProp payload ''toolName''),
                (''toolCallId'', getProp payload ''toolCallId''),
                (''output'', getProp payload ''output'')]))))\<rparr>"

text \<open>The \<open>unsafe-text\<close> codec returns its object literal as it is, without \<open>sortObjectKeys\<close>.\<close>

definition UnsafeTextCodec :: Codec where
  "UnsafeTextCodec =
     \<lparr>c_codecId = ''unsafe-text'',
      c_version = ''1.0.0'',
      canonicalize = (\<lambda>payload.
        case getProp payload ''text'' of
          Some (JStr text) \<Rightarrow>
            Inr (JObj [(''text'', JStr (trim text)),
                       (''role'', nullish (getProp payload ''role'') (JStr ''user''))])
        | _ \<Rightarrow> Inl (TypeError ''payload.text.trim is not a function''))\<rparr>"

definition UserTurnCodec :: Codec where
  "UserTurnCodec =
     \<lparr>c_codecId = ''user-turn'',
      c_version = ''1.0.0'',
      canonicalize = (\<lambda>payload.
        case getProp payload ''text'' of
          Some (JStr text) \<Rightarrow> Inr (JObj (sortObjectKeys [(''text'', JStr (trim text))]))
        | _ \<Rightarrow> Inl (TypeError ''payload.text.trim is not a function''))\<rparr>"

text \<open>The values of the registry \<open>BUILT_IN_CODECS\<close> (codecs/index.ts), in its order.\<close>

definition BUILT_IN_CODECS :: "Codec list" where
  "BUILT_IN_CODECS =
     [SystemRulesCodec, ToolSchemaCodec, StructuredReferenceCodec, ConversationHistoryCodec,
      ToolOutputCodec, RedactedStubCodec, UnsafeTextCodec, UserTurnCodec]"

section \<open>Block hashing (types/hash.ts)\<close>

fun kindName :: "BlockKind \<Rightarrow> string" where
  "kindName pinned = ''pinned''"
| "kindName reference = ''reference''"
| "kindName memory = ''memory''"
| "kindName state = ''state''"
| "kindName tool_output = ''tool_output''"
| "kindName history = ''history''"
| "kindName turn = ''turn''"

fun sensitivityName :: "SensitivityLevel \<Rightarrow> string" where
  "sensitivityName public = ''public''"
| "sensitivityName internal = ''internal''"
| "sensitivityName restricted = ''restricted''"

definition extractStableMetaSubset :: "BlockMeta \<Rightarrow> StableMetaSubset" where
  "extractStableMetaSubset m =
     \<lparr>kind = kind m, sensitivity = sensitivity m, codecId = codecId m,
      codecVersion = codecVersion m\<rparr>"

text \<open>The object that \<open>extractStableMetaSubset\<close> returns, its properties as written.\<close>

definition stableMetaJson :: "StableMetaSubset \<Rightarrow> json" where
  "stableMetaJson s =
     JObj [(''kind'', JStr (kindName (kind s))),
           (''sensitivity'', JStr (sensitivityName (sensitivity s))),
           (''codecId'', JStr (codecId s)),
           (''codecVersion'', JStr (codecVersion s))]"

text \<open>
  The first argument of \<open>computeBlockHash\<close> is a \<open>BlockMeta\<close> (it has \<open>createdAt\<close>) or a
  \<open>StableMetaSubset\<close> object, which is used as the caller built it: the list of its
  properties in the caller's order.
\<close>

datatype MetaArg =
    FullMeta BlockMeta
  | StableMeta "(string \<times> json) list"

text \<open>\<open>hashedText\<close> is the text handed to SHA-256: \<open>JSON.stringify(combined)\<close>.\<close>

definition hashedText :: "MetaArg \<Rightarrow> json \<Rightarrow> Codec option \<Rightarrow> error + string" where
  "hashedText m p codec =
     (let stableMeta = (case m of
                          FullMeta fm \<Rightarrow> stableMetaJson (extractStableMetaSubset fm)
                        | StableMeta obj \<Rightarrow> JObj obj)
      in case (case codec of Some c \<Rightarrow> canonicalize c p | None \<Rightarrow> Inr p) of
           Inl e \<Rightarrow> Inl e
         | Inr canonicalized \<Rightarrow>
             Inr (JSON_stringify (JObj [(''meta'', stableMeta), (''payload'', canonicalized)])))"

text \<open>
  SHA-256 comes from the platform's \<open>crypto\<close> module. Every function that hashes takes the
  digest function (text to lower-case hex) as its first argument \<open>sha256\<close>.
\<close>

definition computeBlockHash ::
  "(string \<Rightarrow> string) \<Rightarrow> MetaArg \<Rightarrow> json \<Rightarrow> Codec option \<Rightarrow> error + string" where
  "computeBlockHash sha256 m p codec =
     (case hashedText m p codec of Inl e \<Rightarrow> Inl e | Inr text \<Rightarrow> Inr (sha256 text))"

section \<open>Graph (graph/context-graph.ts)\<close>

text \<open>
  \<open>blocks\<close> is a \<open>Map\<close> from block hash to block; \<open>getAllBlocks\<close> lists its values in
  insertion order, so it is kept as the list of its entries in that order. The two edge
  maps are only ever read by key. A \<open>BlockRef\<close> is its \<open>blockHash\<close>.
\<close>

record ContextGraph =
  g_blocks :: "(string \<times> ContextBlock) list"
  g_derivedFrom :: "string \<rightharpoonup> string list"
  g_references :: "string \<rightharpoonup> string list"

definition emptyGraph :: ContextGraph where
  "emptyGraph = \<lparr>g_blocks = [], g_derivedFrom = Map.empty, g_references = Map.empty\<rparr>"

definition hasBlock :: "ContextGraph \<Rightarrow> string \<Rightarrow> bool" where
  "hasBlock g h = (h \<in> set (map fst (g_blocks g)))"

definition addBlock ::
  "ContextGraph \<Rightarrow> ContextBlock \<Rightarrow> string list option \<Rightarrow> string list option \<Rightarrow> ContextGraph" where
  "addBlock g block derivedFrom references =
     (if hasBlock g (blockHash block) then g
      else
        let g1 = g\<lparr>g_blocks := g_blocks g @ [(blockHash block, block)]\<rparr>;
            g2 = (case derivedFrom of
                    Some ds \<Rightarrow> if length ds > 0
                               then g1\<lparr>g_derivedFrom := (g_derivedFrom g1)(blockHash block \<mapsto> ds)\<rparr>
                               else g1
                  | None \<Rightarrow> g1)
        in (case references of
              Some rs \<Rightarrow> if length rs > 0
                         then g2\<lparr>g_references := (g_references g2)(blockHash block \<mapsto> rs)\<rparr>
                         else g2
            | None \<Rightarrow> g2))"



definition getAllBlocks :: "ContextGraph \<Rightarrow> ContextBlock list" where
  "getAllBlocks g = map snd (g_blocks g)"

definition getDerivedFrom :: "ContextGraph \<Rightarrow> string \<Rightarrow> string list" where
  "getDerivedFrom g h = (case g_derivedFrom g h of Some ds \<Rightarrow> ds | None \<Rightarrow> [])"

definition getReferences :: "ContextGraph \<Rightarrow> string \<Rightarrow> string list" where
  "getReferences g h = (case g_references g h of Some rs \<Rightarrow> rs | None \<Rightarrow> [])"

section \<open>Queries (graph/queries.ts)\<close>

text \<open>An absent (\<open>undefined\<close>) criterion is \<open>None\<close>. Token counts are integers.\<close>

record BlockQuery =
  q_kinds :: "BlockKind list option"
  q_tags :: "string list option"
  q_minSensitivity :: "SensitivityLevel option"
  q_maxSensitivity :: "SensitivityLevel option"
  q_source :: "string option"
  q_minCreatedAt :: "int option"
  q_maxCreatedAt :: "int option"
  q_derivedFromAny :: "string list option"
  q_notDerivedFromAny :: "string list option"
  q_referencesAny :: "string list option"
  q_excludeHashes :: "string list option"
  q_maxTokens :: "int option"

fun SENSITIVITY_ORDER :: "SensitivityLevel \<Rightarrow> int" where
  "SENSITIVITY_ORDER public = 0"
| "SENSITIVITY_ORDER internal = 1"
| "SENSITIVITY_ORDER restricted = 2"

definition compareSensitivity :: "SensitivityLevel \<Rightarrow> SensitivityLevel \<Rightarrow> int" where
  "compareSensitivity a b = SENSITIVITY_ORDER a - SENSITIVITY_ORDER b"

text \<open>\<open>nonEmpty c\<close> is the source's test \<open>c && c.length > 0\<close> on an optional array.\<close>

fun nonEmpty :: "'a list option \<Rightarrow> bool" where
  "nonEmpty None = False"
| "nonEmpty (Some xs) = (length xs > 0)"

fun orEmpty :: "'a list option \<Rightarrow> 'a list" where
  "orEmpty None = []"
| "orEmpty (Some xs) = xs"

definition matchesQuery :: "ContextBlock \<Rightarrow> BlockQuery \<Rightarrow> ContextGraph \<Rightarrow> bool" where
  "matchesQuery block query graph =
     (if nonEmpty (q_kinds query) \<and> kind (meta block) \<notin> set (orEmpty (q_kinds query)) then False
      else if nonEmpty (q_tags query)
              \<and> (\<exists>tag \<in> set (orEmpty (q_tags query)). tag \<notin> set (orEmpty (tags (meta block)))) then False
      else if (case q_minSensitivity query of None \<Rightarrow> False
               | Some s \<Rightarrow> compareSensitivity (sensitivity (meta block)) s < 0) then False
      else if (case q_maxSensitivity query of None \<Rightarrow> False
               | Some s \<Rightarrow> compareSensitivity (sensitivity (meta block)) s > 0) then False
      else if (case q_source query of None \<Rightarrow> False
               | Some s \<Rightarrow> source (meta block) \<noteq> Some s) then False
      else if (case q_minCreatedAt query of None \<Rightarrow> False
               | Some t \<Rightarrow> createdAt (meta block) < t) then False
      else if (case q_maxCreatedAt query of None \<Rightarrow> False
               | Some t \<Rightarrow> createdAt (meta block) > t) then False
      else if nonEmpty (q_derivedFromAny query)
              \<and> \<not> (\<exists>h \<in> set (orEmpty (q_derivedFromAny query)).
                       h \<in> set (getDerivedFrom graph (blockHash block))) then False
      else if nonEmpty (q_notDerivedFromAny query)
              \<and> (\<exists>h \<in> set (orEmpty (q_notDerivedFromAny query)).
                     h \<in> set (getDerivedFrom graph (blockHash block))) then False
      else if nonEmpty (q_referencesAny query)
              \<and> \<not> (\<exists>h \<in> set (orEmpty (q_referencesAny query)).
                       h \<in> set (getReferences graph (blockHash block))) then False
      else if nonEmpty (q_excludeHashes query)
              \<and> blockHash block \<in> set (orEmpty (q_excludeHashes query)) then False
      else True)"

definition emptyQuery :: BlockQuery where
  "emptyQuery =
     \<lparr>q_kinds = None, q_tags = None, q_minSensitivity = None, q_maxSensitivity = None,
      q_source = None, q_minCreatedAt = None, q_maxCreatedAt = None, q_derivedFromAny = None,
      q_notDerivedFromAny = None, q_referencesAny = None, q_excludeHashes = None,
      q_maxTokens = None\<rparr>"

text \<open>One pass of the loop body of \<open>mergeQueries\<close>, field by field in the source's order.\<close>

definition mergeKinds :: "BlockQuery \<Rightarrow> BlockQuery \<Rightarrow> BlockQuery" where
  "mergeKinds query merged =
     (case q_kinds query of
        None \<Rightarrow> merged
      | Some ks \<Rightarrow>
          (case q_kinds merged of
             Some mk \<Rightarrow> merged\<lparr>q_kinds := Some (filter (\<lambda>k. k \<in> set mk) ks)\<rparr>
           | None \<Rightarrow> merged\<lparr>q_kinds := Some ks\<rparr>))"

definition mergeTags :: "BlockQuery \<Rightarrow> BlockQuery \<Rightarrow> BlockQuery" where
  "mergeTags query merged =
     (case q_tags query of
        None \<Rightarrow> merged
      | Some ts \<Rightarrow> merged\<lparr>q_tags := Some (orEmpty (q_tags merged) @ ts)\<rparr>)"

definition mergeMinSensitivity :: "BlockQuery \<Rightarrow> BlockQuery \<Rightarrow> BlockQuery" where
  "mergeMinSensitivity query merged =
     (case q_minSensitivity query of
        None \<Rightarrow> merged
      | Some s \<Rightarrow>
          (case q_minSensitivity merged of
             None \<Rightarrow> merged\<lparr>q_minSensitivity := Some s\<rparr>
           | Some m \<Rightarrow> if compareSensitivity s m > 0
                       then merged\<lparr>q_minSensitivity := Some s\<rparr> else merged))"

definition mergeMaxSensitivity :: "BlockQuery \<Rightarrow> BlockQuery \<Rightarrow> BlockQuery" where
  "mergeMaxSensitivity query merged =
     (case q_maxSensitivity query of
        None \<Rightarrow> merged
      | Some s \<Rightarrow>
          (case q_maxSensitivity merged of
             None \<Rightarrow> merged\<lparr>q_maxSensitivity := Some s\<rparr>
           | Some m \<Rightarrow> if compareSensitivity s m < 0
                       then merged\<lparr>q_maxSensitivity := Some s\<rparr> else merged))"

definition mergeSource :: "BlockQuery \<Rightarrow> BlockQuery \<Rightarrow> BlockQuery" where
  "mergeSource query merged =
     (case q_source query of
        None \<Rightarrow> merged
      | Some s \<Rightarrow>
          if q_source merged \<noteq> None \<and> q_source merged \<noteq> Some s
          then merged\<lparr>q_kinds := Some []\<rparr>
          else merged\<lparr>q_source := Some s\<rparr>)"

definition mergeCreatedAt :: "BlockQuery \<Rightarrow> BlockQuery \<Rightarrow> BlockQuery" where
  "mergeCreatedAt query merged =
     (let m1 = (case q_minCreatedAt query of
                  None \<Rightarrow> merged
                | Some t \<Rightarrow>
                    (case q_minCreatedAt merged of
                       None \<Rightarrow> merged\<lparr>q_minCreatedAt := Some t\<rparr>
                     | Some m \<Rightarrow> merged\<lparr>q_minCreatedAt := Some (max m t)\<rparr>))
      in (case q_maxCreatedAt query of
            None \<Rightarrow> m1
          | Some t \<Rightarrow>
              (case q_maxCreatedAt m1 of
                 None \<Rightarrow> m1\<lparr>q_maxCreatedAt := Some t\<rparr>
               | Some m \<Rightarrow> m1\<lparr>q_maxCreatedAt := Some (min m t)\<rparr>)))"

definition mergeHashLists :: "BlockQuery \<Rightarrow> BlockQuery \<Rightarrow> BlockQuery" where
  "mergeHashLists query merged =
     (let m1 = (case q_derivedFromAny query of None \<Rightarrow> merged
                | Some hs \<Rightarrow> merged\<lparr>q_derivedFromAny := Some (orEmpty (q_derivedFromAny merged) @ hs)\<rparr>);
          m2 = (case q_notDerivedFromAny query of None \<Rightarrow> m1
                | Some hs \<Rightarrow> m1\<lparr>q_notDerivedFromAny := Some (orEmpty (q_notDerivedFromAny m1) @ hs)\<rparr>);
          m3 = (case q_referencesAny query of None \<Rightarrow> m2
                | Some hs \<Rightarrow> m2\<lparr>q_referencesAny := Some (orEmpty (q_referencesAny m2) @ hs)\<rparr>)
      in (case q_excludeHashes query of None \<Rightarrow> m3
          | Some hs \<Rightarrow> m3\<lparr>q_excludeHashes := Some (orEmpty (q_excludeHashes m3) @ hs)\<rparr>))"

definition mergeMaxTokens :: "BlockQuery \<Rightarrow> BlockQuery \<Rightarrow> BlockQuery" where
  "mergeMaxTokens query merged =
     (case q_maxTokens query of
        None \<Rightarrow> merged
      | Some t \<Rightarrow>
          (case q_maxTokens merged of
             None \<Rightarrow> merged\<lparr>q_maxTokens := Some t\<rparr>
           | Some m \<Rightarrow> merged\<lparr>q_maxTokens := Some (min m t)\<rparr>))"

definition mergeStep :: "BlockQuery \<Rightarrow> BlockQuery \<Rightarrow> BlockQuery" where
  "mergeStep merged query =
     mergeMaxTokens query (mergeHashLists query (mergeCreatedAt query (mergeSource query
       (mergeMaxSensitivity query (mergeMinSensitivity query (mergeTags query
         (mergeKinds query merged)))))))"

definition mergeQueries :: "BlockQuery list \<Rightarrow> BlockQuery" where
  "mergeQueries queries = foldl mergeStep emptyQuery queries"

definition select :: "ContextGraph \<Rightarrow> BlockQuery \<Rightarrow> ContextBlock list" where
  "select g query = filter (\<lambda>block. matchesQuery block query g) (getAllBlocks g)"

section \<open>Kind order (graph/kind-order.ts)\<close>

definition KIND_ORDER :: "BlockKind list" where
  "KIND_ORDER = [pinned, reference, memory, state, tool_output, history, turn]"

text \<open>\<open>Array.prototype.indexOf\<close>: the first index of the element, or \<open>-1\<close>.\<close>

fun indexOf :: "'a list \<Rightarrow> 'a \<Rightarrow> int" where
  "indexOf [] x = -1"
| "indexOf (y # ys) x =
     (if y = x then 0 else (let i = indexOf ys x in if i = -1 then -1 else i + 1))"

definition getKindIndex :: "BlockKind \<Rightarrow> int" where
  "getKindIndex k = indexOf KIND_ORDER k"

definition compareKinds :: "BlockKind \<Rightarrow> BlockKind \<Rightarrow> error + int" where
  "compareKinds a b =
     (let indexA = getKindIndex a; indexB = getKindIndex b
      in if indexA = -1 then Inl (InvalidBlockKind a)
         else if indexB = -1 then Inl (InvalidBlockKind b)
         else Inr (indexA - indexB))"

section \<open>Views (graph/views.ts)\<close>

text \<open>
  \<open>Array.prototype.sort\<close> is stable, and with a comparator that is consistent (a total
  preorder, as a collation is) its result is determined; it is modelled by a stable
  insertion sort that stops with the comparator's exception when it throws. An element is
  placed before the first element it does not compare greater than.
\<close>

fun insertBy :: "('a \<Rightarrow> 'a \<Rightarrow> error + int) \<Rightarrow> 'a \<Rightarrow> 'a list \<Rightarrow> error + 'a list" where
  "insertBy cmp x [] = Inr [x]"
| "insertBy cmp x (y # ys) =
     (case cmp x y of
        Inl e \<Rightarrow> Inl e
      | Inr c \<Rightarrow>
          if c \<le> 0 then Inr (x # y # ys)
          else (case insertBy cmp x ys of Inl e \<Rightarrow> Inl e | Inr zs \<Rightarrow> Inr (y # zs)))"

fun sortBy :: "('a \<Rightarrow> 'a \<Rightarrow> error + int) \<Rightarrow> 'a list \<Rightarrow> error + 'a list" where
  "sortBy cmp [] = Inr []"
| "sortBy cmp (x # xs) =
     (case sortBy cmp xs of Inl e \<Rightarrow> Inl e | Inr ys \<Rightarrow> insertBy cmp x ys)"

text \<open>
  \<open>String.prototype.localeCompare\<close> is the collation of the platform's locale (ICU), which
  is not the order of the code units: in the English locale \<open>a\<close> sorts before \<open>B\<close>. The
  functions that sort take the collation as their first argument \<open>localeCompare\<close>; the
  comparator of \<open>sortBlocksDeterministic\<close> is \<open>compareBlocks\<close>.
\<close>

definition compareBlocks ::
  "(string \<Rightarrow> string \<Rightarrow> int) \<Rightarrow> ContextBlock \<Rightarrow> ContextBlock \<Rightarrow> error + int" where
  "compareBlocks localeCompare a b =
     (case compareKinds (kind (meta a)) (kind (meta b)) of
        Inl e \<Rightarrow> Inl e
      | Inr kindCmp \<Rightarrow>
          if kindCmp \<noteq> 0 then Inr kindCmp
          else Inr (localeCompare (blockHash a) (blockHash b)))"

definition sortBlocksDeterministic ::
  "(string \<Rightarrow> string \<Rightarrow> int) \<Rightarrow> ContextBlock list \<Rightarrow> error + ContextBlock list" where
  "sortBlocksDeterministic localeCompare blocks = sortBy (compareBlocks localeCompare) blocks"

definition computeStablePrefixHash :: "(string \<Rightarrow> string) \<Rightarrow> ContextBlock list \<Rightarrow> string" where
  "computeStablePrefixHash sha256 blocks = sha256 (join ''|'' (map blockHash blocks))"

datatype Confidence = exact | high | low

record TokenEstimate =
  est_tokens :: int
  est_confidence :: Confidence

text \<open>
  The \<open>TokenEstimator\<close> interface; its two asynchronous methods are modelled by the values
  they resolve to. Token counts and token budgets are of type \<open>number\<close> in the source and
  are validated nowhere; they are integers here, negative ones included.
\<close>

record TokenEstimator =
  estimate :: "ContextBlock list \<Rightarrow> TokenEstimate"
  estimateBlock :: "ContextBlock \<Rightarrow> TokenEstimate"

record ViewTokenEstimate =
  tokens :: int
  confidence :: Confidence
  truncated :: bool

definition trackConfidence :: "Confidence \<Rightarrow> Confidence \<Rightarrow> Confidence" where
  "trackConfidence blockConfidence lowestConfidence =
     (if blockConfidence = low then low
      else if blockConfidence = high \<and> lowestConfidence = exact then high
      else lowestConfidence)"

text \<open>
  The loop of \<open>applyTokenBudget\<close> over the remaining blocks, with the loop variables
  \<open>totalTokens\<close>, \<open>lowestConfidence\<close> and \<open>includedBlocks\<close>.
\<close>

fun budgetLoop ::
  "TokenEstimator \<Rightarrow> int \<Rightarrow> ContextBlock list \<Rightarrow> int \<Rightarrow> Confidence \<Rightarrow> ContextBlock list
     \<Rightarrow> ContextBlock list \<times> ViewTokenEstimate" where
  "budgetLoop estimator maxTokens [] totalTokens lowestConfidence includedBlocks =
     (includedBlocks,
      \<lparr>tokens = totalTokens, confidence = lowestConfidence, truncated = False\<rparr>)"
| "budgetLoop estimator maxTokens (block # rest) totalTokens lowestConfidence includedBlocks =
     (let blockEstimate = estimateBlock estimator block;
          projectedTotal = totalTokens + est_tokens blockEstimate
      in if projectedTotal > maxTokens
         then (includedBlocks,
               \<lparr>tokens = totalTokens, confidence = lowestConfidence, truncated = True\<rparr>)
         else budgetLoop estimator maxTokens rest
                (totalTokens + est_tokens blockEstimate)
                (trackConfidence (est_confidence blockEstimate) lowestConfidence)
                (includedBlocks @ [block]))"

definition applyTokenBudget ::
  "ContextBlock list \<Rightarrow> TokenEstimator \<Rightarrow> int \<Rightarrow> ContextBlock list \<times> ViewTokenEstimate" where
  "applyTokenBudget blocks estimator maxTokens = budgetLoop estimator maxTokens blocks 0 exact []"

record ContextView =
  blocks :: "ContextBlock list"
  tokenEstimate :: "ViewTokenEstimate option"
  stablePrefixHash :: string
  view_createdAt :: int

record ViewOptions =
  query :: "BlockQuery option"
  tokenEstimator :: "TokenEstimator option"
  maxTokens :: "int option"

text \<open>
  \<open>createContextView\<close>; \<open>nowMs\<close> is the reading of \<open>Date.now()\<close>. The budget branch is
  taken when an estimator is given and \<open>maxTokens\<close> is not \<open>undefined\<close>.
\<close>

definition createContextView ::
  "(string \<Rightarrow> string \<Rightarrow> int) \<Rightarrow> (string \<Rightarrow> string) \<Rightarrow> int \<Rightarrow> ContextGraph \<Rightarrow> ViewOptions
     \<Rightarrow> error + ContextView" where
  "createContextView localeCompare sha256 nowMs graph options =
     (let q = (case query options of Some q' \<Rightarrow> q' | None \<Rightarrow> emptyQuery)
      in case sortBlocksDeterministic localeCompare (select graph q) of
           Inl e \<Rightarrow> Inl e
         | Inr sortedBlocks \<Rightarrow>
             let (selectedBlocks, estimateResult) =
                   (case (tokenEstimator options, maxTokens options) of
                      (Some estimator, Some budget) \<Rightarrow>
                        (let (bs, est) = applyTokenBudget sortedBlocks estimator budget
                         in (bs, Some est))
                    | (Some estimator, None) \<Rightarrow>
                        (let est = estimate estimator sortedBlocks
                         in (sortedBlocks,
                             Some \<lparr>tokens = est_tokens est, confidence = est_confidence est,
                                   truncated = False\<rparr>))
                    | (None, _) \<Rightarrow> (sortedBlocks, None))
             in Inr \<lparr>blocks = selectedBlocks,
                     tokenEstimate = estimateResult,
                     stablePrefixHash = computeStablePrefixHash sha256 selectedBlocks,
                     view_createdAt = nowMs div 1000\<rparr>)"

section \<open>Fork (builder/context-fork.ts)\<close>

text \<open>Of \<open>ContextForkOptions\<close>, the fields that \<open>createFork\<close> reads.\<close>

record ContextForkOptions =
  includeHistory :: "bool option"
  includeState :: "bool option"
  maxSensitivity :: "SensitivityLevel option"
  budgetOverride :: "int option"

definition exceedsSensitivityLevel :: "SensitivityLevel \<Rightarrow> SensitivityLevel \<Rightarrow> bool" where
  "exceedsSensitivityLevel level maxLevel \<longleftrightarrow> SENSITIVITY_ORDER level > SENSITIVITY_ORDER maxLevel"

definition stubPlaceholder :: string where
  "stubPlaceholder = ''[REDACTED - Sensitive content removed]''"

text \<open>\<open>createRedactedStub\<close>; \<open>nowMs\<close> is the reading of \<open>Date.now()\<close>.\<close>

definition createRedactedStub ::
  "(string \<Rightarrow> string) \<Rightarrow> int \<Rightarrow> ContextBlock \<Rightarrow> string \<Rightarrow> error + ContextBlock" where
  "createRedactedStub sha256 nowMs originalBlock reason =
     (let stubPayload = JObj [(''originalBlockHash'', JStr (blockHash originalBlock)),
                              (''reason'', JStr reason),
                              (''placeholder'', JStr stubPlaceholder)];
          stubMeta = \<lparr>kind = kind (meta originalBlock),
                      sensitivity = public,
                      codecId = c_codecId RedactedStubCodec,
                      codecVersion = c_version RedactedStubCodec,
                      createdAt = nowMs div 1000,
                      source = source (meta originalBlock),
                      tags = tags (meta originalBlock)\<rparr>
      in case computeBlockHash sha256 (FullMeta stubMeta) stubPayload (Some RedactedStubCodec) of
           Inl e \<Rightarrow> Inl e
         | Inr h \<Rightarrow> Inr \<lparr>blockHash = h, meta = stubMeta, payload = stubPayload\<rparr>)"

definition redactionReason :: "SensitivityLevel \<Rightarrow> SensitivityLevel \<Rightarrow> string" where
  "redactionReason level maxLevel =
     ''Sensitivity level '' @ [CHR 0x27] @ sensitivityName level @ [CHR 0x27]
       @ '' exceeds maximum '' @ [CHR 0x27] @ sensitivityName maxLevel @ [CHR 0x27]"

text \<open>
  \<open>filterBySensitivity\<close> maps over the blocks of the view. The clock is read once for
  the whole call.
\<close>

definition filterBySensitivity ::
  "(string \<Rightarrow> string) \<Rightarrow> int \<Rightarrow> ContextView \<Rightarrow> SensitivityLevel \<Rightarrow> error + ContextBlock list" where
  "filterBySensitivity sha256 nowMs view maxLevel =
     mapE (\<lambda>block.
             if exceedsSensitivityLevel (sensitivity (meta block)) maxLevel
             then createRedactedStub sha256 nowMs block
                    (redactionReason (sensitivity (meta block)) maxLevel)
             else Inr block)
          (blocks view)"

definition createFork ::
  "(string \<Rightarrow> string) \<Rightarrow> int \<Rightarrow> ContextView \<Rightarrow> ContextForkOptions \<Rightarrow> error + ContextView" where
  "createFork sha256 nowMs parentView options =
     (let maxLevel = (case maxSensitivity options of Some s \<Rightarrow> s | None \<Rightarrow> public)
      in case filterBySensitivity sha256 nowMs parentView maxLevel of
           Inl e \<Rightarrow> Inl e
         | Inr filteredBlocks \<Rightarrow>
             let finalBlocks1 =
                   (if includeHistory options \<noteq> Some True
                    then filter (\<lambda>block. kind (meta block) \<noteq> history) filteredBlocks
                    else filteredBlocks);
                 finalBlocks =
                   (if includeState options \<noteq> Some True
                    then filter (\<lambda>block. kind (meta block) \<noteq> state) finalBlocks1
                    else finalBlocks1)
             in Inr \<lparr>blocks = finalBlocks,
                     tokenEstimate =
                       (case budgetOverride options of
                          Some n \<Rightarrow>
                            if n \<noteq> 0
                            then Some \<lparr>tokens = n, confidence = high, truncated = False\<rparr>
                            else tokenEstimate parentView
                        | None \<Rightarrow> tokenEstimate parentView),
                     stablePrefixHash = sha256 (join ''|'' (map blockHash finalBlocks)),
                     view_createdAt = nowMs div 1000\<rparr>)"

section \<open>Compaction (pipeline/compactor.ts, pipeline/summarizer.ts)\<close>

text \<open>\<open>original.meta.source ?? 'unknown'\<close> and \<open>original.meta.tags ?? []\<close>.\<close>

definition sourceOrUnknown :: "BlockMeta \<Rightarrow> string" where
  "sourceOrUnknown m = (case source m of Some s \<Rightarrow> s | None \<Rightarrow> ''unknown'')"

definition createReplacementBlock ::
  "(string \<Rightarrow> string) \<Rightarrow> ContextBlock \<Rightarrow> json \<Rightarrow> string \<Rightarrow> string \<Rightarrow> error + ContextBlock" where
  "createReplacementBlock sha256 original newPayload method version =
     (case computeBlockHash sha256 (FullMeta (meta original)) newPayload None of
        Inl e \<Rightarrow> Inl e
      | Inr h \<Rightarrow>
          Inr \<lparr>blockHash = h,
               meta = (meta original)
                        \<lparr>source := Some (sourceOrUnknown (meta original) @ '':compacted''),
                         tags := Some (orEmpty (tags (meta original)) @ [''compacted:'' @ method])\<rparr>,
               payload = newPayload\<rparr>)"

record ToolOutputPruningConfig =
  maxRawTailChars :: nat
  preserveErrorTail :: bool
  maxOutputsPerTool :: nat

definition DEFAULT_TOOL_OUTPUT_PRUNING :: ToolOutputPruningConfig where
  "DEFAULT_TOOL_OUTPUT_PRUNING =
     \<lparr>maxRawTailChars = 500, preserveErrorTail = True, maxOutputsPerTool = 3\<rparr>"

text \<open>
  \<open>xs.slice(-n)\<close> and \<open>xs.slice(0, -n)\<close> for a count \<open>n\<close>: \<open>-0\<close> is \<open>0\<close>, so for \<open>n = 0\<close>
  the first is the whole array and the second is empty.
\<close>

definition sliceLast :: "'a list \<Rightarrow> nat \<Rightarrow> 'a list" where
  "sliceLast xs n = (if n = 0 then xs else drop (length xs - n) xs)"

definition sliceButLast :: "'a list \<Rightarrow> nat \<Rightarrow> 'a list" where
  "sliceButLast xs n = (if n = 0 then [] else take (length xs - n) xs)"

definition truncateTail :: "string \<Rightarrow> nat \<Rightarrow> string" where
  "truncateTail text maxChars =
     (if length text \<le> maxChars then text
      else ''... [truncated '' @ natToString (length text - maxChars) @ '' chars] ...''
             @ [CHR 0x0A] @ sliceLast text maxChars)"

text \<open>
  \<open>{...payload, k: v}\<close>: the property keeps its place when the object has it and is
  appended otherwise.
\<close>

fun setProp :: "(string \<times> json) list \<Rightarrow> string \<Rightarrow> json \<Rightarrow> (string \<times> json) list" where
  "setProp [] k v = [(k, v)]"
| "setProp ((k', v') # rest) k v =
     (if k' = k then (k, v) # rest else (k', v') # setProp rest k v)"

text \<open>The \<open>Map\<close> from tool id to blocks, in the order in which the ids first occur.\<close>

fun addToGroup :: "(string \<times> 'a list) list \<Rightarrow> string \<Rightarrow> 'a \<Rightarrow> (string \<times> 'a list) list" where
  "addToGroup [] k x = [(k, [x])]"
| "addToGroup ((k', xs) # rest) k x =
     (if k' = k then (k', xs @ [x]) # rest else (k', xs) # addToGroup rest k x)"

definition groupByTool :: "ContextBlock list \<Rightarrow> (string \<times> ContextBlock list) list" where
  "groupByTool bs = foldl (\<lambda>byTool block. addToGroup byTool (codecId (meta block)) block) [] bs"

record PruneResult =
  p_blocks :: "ContextBlock list"
  p_removed :: "ContextBlock list"
  p_replaced :: "ContextBlock list"

text \<open>
  The inner loop over \<open>toKeep\<close>, with the arrays \<open>kept\<close> and \<open>replaced\<close>. Reading a property
  of a \<open>null\<close> payload throws.
\<close>

definition isLarge :: "json \<Rightarrow> nat \<Rightarrow> bool" where
  "isLarge p maxChars =
     (case getProp p ''output'' of
        Some (JStr out) \<Rightarrow> out \<noteq> [] \<and> length out > maxChars
      | _ \<Rightarrow> False)"

definition isError :: "json \<Rightarrow> bool" where
  "isError p \<longleftrightarrow>
     (case getProp p ''error'' of Some e \<Rightarrow> truthy e | None \<Rightarrow> False)
     \<or> getProp p ''status'' = Some (JStr ''error'')"

definition truncatedPayload :: "json \<Rightarrow> nat \<Rightarrow> json" where
  "truncatedPayload p maxChars =
     (case p of
        JObj kvs \<Rightarrow>
          (case map_of kvs ''output'' of
             Some (JStr out) \<Rightarrow>
               JObj (setProp (setProp kvs ''output'' (JStr (truncateTail out maxChars)))
                       ''_truncated'' (JBool True))
           | _ \<Rightarrow> p)
      | _ \<Rightarrow> p)"

fun keepLoop ::
  "(string \<Rightarrow> string) \<Rightarrow> ToolOutputPruningConfig \<Rightarrow> ContextBlock list
     \<Rightarrow> ContextBlock list \<times> ContextBlock list
     \<Rightarrow> error + ContextBlock list \<times> ContextBlock list" where
  "keepLoop sha256 config [] (kept, replaced) = Inr (kept, replaced)"
| "keepLoop sha256 config (block # rest) (kept, replaced) =
     (if payload block = JNull then Inl (TypeError ''Cannot read properties of null'')
      else if isLarge (payload block) (maxRawTailChars config)
              \<and> (\<not> isError (payload block) \<or> \<not> preserveErrorTail config)
      then (case createReplacementBlock sha256 block
                   (truncatedPayload (payload block) (maxRawTailChars config))
                   ''tool_output_prune'' ''1.0.0'' of
              Inl e \<Rightarrow> Inl e
            | Inr replacementBlock \<Rightarrow>
                keepLoop sha256 config rest (kept @ [replacementBlock], replaced @ [block]))
      else keepLoop sha256 config rest (kept @ [block], replaced))"

text \<open>The outer loop over the entries of \<open>byTool\<close>, with \<open>kept\<close>, \<open>removed\<close> and \<open>replaced\<close>.\<close>

fun toolLoop ::
  "(string \<Rightarrow> string) \<Rightarrow> ToolOutputPruningConfig \<Rightarrow> (string \<times> ContextBlock list) list
     \<Rightarrow> ContextBlock list \<times> ContextBlock list \<times> ContextBlock list
     \<Rightarrow> error + ContextBlock list \<times> ContextBlock list \<times> ContextBlock list" where
  "toolLoop sha256 config [] st = Inr st"
| "toolLoop sha256 config ((toolId, toolBlocks) # rest) (kept, removed, replaced) =
     (let sortedBlocks = sort_key (\<lambda>b. createdAt (meta b)) toolBlocks;
          toKeep = sliceLast sortedBlocks (maxOutputsPerTool config);
          toRemove = sliceButLast sortedBlocks (maxOutputsPerTool config)
      in case keepLoop sha256 config toKeep (kept, replaced) of
           Inl e \<Rightarrow> Inl e
         | Inr (kept', replaced') \<Rightarrow>
             toolLoop sha256 config rest (kept', removed @ toRemove, replaced'))"

definition pruneToolOutputs ::
  "(string \<Rightarrow> string) \<Rightarrow> ContextBlock list \<Rightarrow> ToolOutputPruningConfig \<Rightarrow> error + PruneResult" where
  "pruneToolOutputs sha256 bs config =
     (let toolOutputBlocks = filter (\<lambda>b. kind (meta b) = tool_output) bs;
          otherBlocks = filter (\<lambda>b. kind (meta b) \<noteq> tool_output) bs
      in case toolLoop sha256 config (groupByTool toolOutputBlocks) ([], [], []) of
           Inl e \<Rightarrow> Inl e
         | Inr (kept, removed, replaced) \<Rightarrow>
             Inr \<lparr>p_blocks = otherBlocks @ kept, p_removed = removed, p_replaced = replaced\<rparr>)"

text \<open>
  \<open>AnthropicSummarizer.summarize\<close>, from the point where the model's reply has arrived:
  \<open>summary\<close> is the text of the reply and \<open>nowMs\<close> the reading of \<open>Date.now()\<close>. Reading
  \<open>blocks[0].meta\<close> of an empty list throws.
\<close>

definition summarize ::
  "(string \<Rightarrow> string) \<Rightarrow> int \<Rightarrow> string \<Rightarrow> ContextBlock list \<Rightarrow> int \<Rightarrow> error + ContextBlock" where
  "summarize sha256 nowMs summary bs targetTokens =
     (case bs of
        [] \<Rightarrow> Inl (TypeError ''Cannot read properties of undefined'')
      | firstBlock # _ \<Rightarrow>
          let summaryPayload = JObj [(''summary'', JStr summary),
                                     (''originalBlockCount'', JNum (int (length bs))),
                                     (''summarizedAt'', JNum nowMs)];
              summarizedSource = sourceOrUnknown (meta firstBlock) @ '':summarized''
          in case computeBlockHash sha256
                    (FullMeta ((meta firstBlock)\<lparr>source := Some summarizedSource\<rparr>))
                    summaryPayload None of
               Inl e \<Rightarrow> Inl e
             | Inr h \<Rightarrow>
                 Inr \<lparr>blockHash = h,
                      meta = (meta firstBlock)
                               \<lparr>kind := history,
                                source := Some summarizedSource,
                                tags := Some (orEmpty (tags (meta firstBlock)) @ [''summarized'']),
                                createdAt := nowMs\<rparr>,
                      payload = summaryPayload\<rparr>)"

section \<open>Gemini compiler (providers/gemini-compiler.ts)\<close>

text \<open>
  A message is declared with \<open>role: 'user' | 'model'\<close>, but the messages are collected
  untyped from what the codecs render and nothing checks the role: it is whatever value
  the property has, \<open>None\<close> when it is \<open>undefined\<close>. The names \<open>user\<close> and \<open>model\<close> stand
  for the two declared values. Roles are compared with \<open>===\<close>; the roles that are objects,
  which JavaScript compares by identity, are compared by value here.
\<close>

type_synonym GeminiRole = "json option"

abbreviation user :: GeminiRole where
  "user \<equiv> Some (JStr ''user'')"

abbreviation model :: GeminiRole where
  "model \<equiv> Some (JStr ''model'')"

record GeminiMessage =
  role :: GeminiRole
  parts :: "json list"

text \<open>
  The loop of \<open>enforceAlternatingRoles\<close>: the state is \<open>(result, currentRole, currentParts)\<close>,
  with \<open>currentRole\<close> initially \<open>null\<close>. A pending message is pushed when its role is not
  \<open>null\<close> and it has a part.
\<close>

definition flush :: "GeminiMessage list \<Rightarrow> GeminiRole \<Rightarrow> json list \<Rightarrow> GeminiMessage list" where
  "flush result currentRole currentParts =
     (if currentRole \<noteq> Some JNull \<and> length currentParts > 0
      then result @ [\<lparr>role = currentRole, parts = currentParts\<rparr>] else result)"

fun alternatingLoop ::
  "GeminiMessage list \<Rightarrow> GeminiMessage list \<times> GeminiRole \<times> json list
     \<Rightarrow> GeminiMessage list \<times> GeminiRole \<times> json list" where
  "alternatingLoop [] st = st"
| "alternatingLoop (msg # rest) (result, currentRole, currentParts) =
     (if role msg = currentRole
      then alternatingLoop rest (result, currentRole, currentParts @ parts msg)
      else alternatingLoop rest (flush result currentRole currentParts, role msg, parts msg))"

definition enforceAlternatingRoles :: "GeminiMessage list \<Rightarrow> GeminiMessage list" where
  "enforceAlternatingRoles messages =
     (case alternatingLoop messages ([], Some JNull, []) of
        (result, currentRole, currentParts) \<Rightarrow> flush result currentRole currentParts)"

text \<open>
  What a codec renders for Gemini (\<open>codec.render(block).gemini\<close>) is untyped: a JSON
  value, \<open>None\<close> when the field is absent. The registry maps a codec id to that rendering.
\<close>

type_synonym GeminiRenderer = "ContextBlock \<Rightarrow> error + json option"

text \<open>
  The collected values (\<open>None\<close> for an \<open>undefined\<close> one) are read by
  \<open>enforceAlternatingRoles\<close> through \<open>msg.role\<close> and the spread \<open>...msg.parts\<close>. \<open>asMessage\<close>
  is that reading: the role is taken as it is; the parts are the elements of an array or
  the characters of a string; any other \<open>parts\<close> cannot be spread, and \<open>undefined\<close> and
  \<open>null\<close> have no properties, which throws a \<open>TypeError\<close>.
\<close>

definition asMessage :: "json option \<Rightarrow> error + GeminiMessage" where
  "asMessage msg =
     (case msg of
        None \<Rightarrow> Inl (TypeError ''Cannot read properties of undefined'')
      | Some JNull \<Rightarrow> Inl (TypeError ''Cannot read properties of null'')
      | Some v \<Rightarrow>
          (case getProp v ''parts'' of
             Some (JArr ps) \<Rightarrow> Inr \<lparr>role = getProp v ''role'', parts = ps\<rparr>
           | Some (JStr s) \<Rightarrow> Inr \<lparr>role = getProp v ''role'', parts = map (\<lambda>c. JStr [c]) s\<rparr>
           | _ \<Rightarrow> Inl (TypeError ''msg.parts is not iterable'')))"

definition userMessage :: "json \<Rightarrow> json" where
  "userMessage ps = JObj [(''role'', JStr ''user''), (''parts'', ps)]"

text \<open>The body of the loop of \<open>compileMessages\<close> for one block; \<open>messages\<close> is the array so far.\<close>

definition compileBlock ::
  "(string \<rightharpoonup> GeminiRenderer) \<Rightarrow> json option list \<Rightarrow> ContextBlock
     \<Rightarrow> error + json option list" where
  "compileBlock codecRegistry messages block =
     (case codecRegistry (codecId (meta block)) of
        None \<Rightarrow> Inr messages
      | Some render \<Rightarrow>
          (case render block of
             Inl e \<Rightarrow> Inl e
           | Inr geminiContent \<Rightarrow>
               if kind (meta block) = history then
                 (case geminiContent of
                    Some (JArr ms) \<Rightarrow> Inr (messages @ map Some ms)
                  | _ \<Rightarrow> Inr (messages @ [geminiContent]))
               else if kind (meta block) = turn then
                 (case geminiContent of
                    None \<Rightarrow> Inl (TypeError ''Cannot read properties of undefined'')
                  | Some JNull \<Rightarrow> Inl (TypeError ''Cannot read properties of null'')
                  | Some v \<Rightarrow>
                      Inr (messages @
                        [Some (userMessage
                           (case getProp v ''parts'' of
                              Some ps \<Rightarrow> if truthy ps then ps else JArr [JObj [(''text'', v)]]
                            | None \<Rightarrow> JArr [JObj [(''text'', v)]]))]))
               else
                 Inr (messages @
                   [Some (userMessage (JArr [JObj (objLit
                      [(''text'',
                        (case geminiContent of
                           Some (JStr s) \<Rightarrow> Some (JStr s)
                         | Some v \<Rightarrow> Some (JStr (JSON_stringify v))
                         | None \<Rightarrow> None))])]))])))"

fun compileLoop ::
  "(string \<rightharpoonup> GeminiRenderer) \<Rightarrow> json option list \<Rightarrow> ContextBlock list
     \<Rightarrow> error + json option list" where
  "compileLoop codecRegistry messages [] = Inr messages"
| "compileLoop codecRegistry messages (block # rest) =
     (case compileBlock codecRegistry messages block of
        Inl e \<Rightarrow> Inl e
      | Inr messages' \<Rightarrow> compileLoop codecRegistry messages' rest)"

definition compileMessages ::
  "ContextBlock list \<Rightarrow> (string \<rightharpoonup> GeminiRenderer) \<Rightarrow> error + GeminiMessage list" where
  "compileMessages bs codecRegistry =
     (case compileLoop codecRegistry [] bs of
        Inl e \<Rightarrow> Inl e
      | Inr messages \<Rightarrow>
          (case mapE asMessage messages of
             Inl e \<Rightarrow> Inl e
           | Inr typed \<Rightarrow> Inr (enforceAlternatingRoles typed)))"

text \<open>The \<open>messages\<close> field of the result of \<open>compileGeminiContext\<close>.\<close>

definition compileGeminiContext_messages ::
  "ContextBlock list \<Rightarrow> (string \<rightharpoonup> GeminiRenderer) \<Rightarrow> error + GeminiMessage list" where
  "compileGeminiContext_messages bs codecRegistry =
     compileMessages (filter (\<lambda>b. kind (meta b) \<noteq> pinned) bs) codecRegistry"

text \<open>
  The Gemini rendering of the \<open>conversation-history\<close> codec, read at the payload's declared
  type: \<open>messages\<close> an array of \<open>{role, content}\<close>, \<open>summary\<close> an optional string.
\<close>

definition historyGeminiMessage :: "json \<Rightarrow> json" where
  "historyGeminiMessage msg =
     JObj (objLit
       [(''role'', Some (JStr (if getProp msg ''role'' = Some (JStr ''assistant'')
                               then ''model'' else ''user''))),
        (''parts'', (case getProp msg ''content'' of
                       Some (JStr s) \<Rightarrow> Some (JArr [JObj [(''text'', JStr s)]])
                     | c \<Rightarrow> c))])"

definition ConversationHistoryCodec_renderGemini :: GeminiRenderer where
  "ConversationHistoryCodec_renderGemini block =
     (case getProp (payload block) ''messages'' of
        Some (JArr messages) \<Rightarrow>
          (let allMessages =
                 (case getProp (payload block) ''summary'' of
                    Some (JStr summary) \<Rightarrow>
                      if summary \<noteq> []
                      then JObj [(''role'', JStr ''user''),
                                 (''content'', JStr (''**Earlier conversation (summary):**''
                                                     @ [CHR 0x0A] @ summary))] # messages
                      else messages
                  | _ \<Rightarrow> messages)
           in Inr (Some (JArr (map historyGeminiMessage allMessages))))
      | _ \<Rightarrow> Inl (TypeError ''messages.map is not a function''))"

section \<open>Auxiliary notions for the properties\<close>

text \<open>
  The invariant of the loop of \<open>enforceAlternatingRoles\<close> on messages that all have a
  part and a role other than \<open>null\<close>: the flushed messages alternate, the pending message
  has a part, and its role differs from the role of the last flushed message.
\<close>

definition loopInv :: "GeminiMessage list \<times> GeminiRole \<times> json list \<Rightarrow> bool" where
  "loopInv st =
     (case st of (result, currentRole, currentParts) \<Rightarrow>
        distinct_adj (map role result)
        \<and> (if currentRole = Some JNull then result = []
           else currentParts \<noteq> [] \<and> (result \<noteq> [] \<longrightarrow> role (last result) \<noteq> currentRole)))"


definition blockCmp :: "(string \<Rightarrow> string \<Rightarrow> int) \<Rightarrow> ContextBlock \<Rightarrow> ContextBlock \<Rightarrow> int" where
  "blockCmp localeCompare a b =
     (if getKindIndex (kind (meta a)) - getKindIndex (kind (meta b)) \<noteq> 0
      then getKindIndex (kind (meta a)) - getKindIndex (kind (meta b))
      else localeCompare (blockHash a) (blockHash b))"




text \<open>
  A collation for the closed instances, in the manner of ICU's root collation on the ASCII
  letters and digits (the order of \<open>localeCompare\<close> in the English locale): strings are
  compared first by their letters and digits without regard to case, digits before
  letters; strings equal in that are compared by case, lower case first. The other
  characters are placed after the letters, by code unit, to complete the order.
\<close>

definition primaryWeight :: "char \<Rightarrow> nat" where
  "primaryWeight c =
     (let n = (of_char c :: nat)
      in if 48 \<le> n \<and> n \<le> 57 then n - 48
         else if 97 \<le> n \<and> n \<le> 122 then n - 87
         else if 65 \<le> n \<and> n \<le> 90 then n - 55
         else n + 36)"

definition isUpper :: "char \<Rightarrow> bool" where
  "isUpper c \<longleftrightarrow> 65 \<le> (of_char c :: nat) \<and> (of_char c :: nat) \<le> 90"

definition alnumCollation :: "string \<Rightarrow> string \<Rightarrow> int" where
  "alnumCollation a b =
     (if map primaryWeight a < map primaryWeight b then -1
      else if map primaryWeight b < map primaryWeight a then 1
      else if map isUpper a < map isUpper b then -1
      else if map isUpper b < map isUpper a then 1
      else 0)"



text \<open>
  Concrete inputs for the closed instances: the test suite's \<open>createBlock\<close> helper, an
  estimator charging every block the same number of tokens, the graph of three blocks
  of kinds history, pinned and memory added in that order, and two graphs of blocks of one
  kind, with hexadecimal hashes and with the hashes \<open>B\<close> and \<open>a\<close>. The closed instances
  take the identity for the digest function.
\<close>

definition testBlock :: "string \<Rightarrow> BlockKind \<Rightarrow> ContextBlock" where
  "testBlock h k =
     \<lparr>blockHash = h,
      meta = \<lparr>kind = k, sensitivity = public, codecId = ''test'', codecVersion = ''1.0.0'',
              createdAt = 1000, source = None, tags = None\<rparr>,
      payload = JStr ''x''\<rparr>"

definition flatEstimator :: "int \<Rightarrow> TokenEstimator" where
  "flatEstimator n =
     \<lparr>estimate = (\<lambda>bs. \<lparr>est_tokens = n * int (length bs), est_confidence = low\<rparr>),
      estimateBlock = (\<lambda>b. \<lparr>est_tokens = n, est_confidence = low\<rparr>)\<rparr>"

definition testGraph :: ContextGraph where
  "testGraph =
     addBlock (addBlock (addBlock emptyGraph (testBlock ''hH'' history) None None)
       (testBlock ''hP'' pinned) None None) (testBlock ''hM'' memory) None None"

definition hexGraph :: ContextGraph where
  "hexGraph =
     addBlock (addBlock (addBlock emptyGraph (testBlock ''b1'' memory) None None)
       (testBlock ''a9'' memory) None None) (testBlock ''ff'' pinned) None None"

definition mixedCaseGraph :: ContextGraph where
  "mixedCaseGraph =
     addBlock (addBlock emptyGraph (testBlock ''B'' memory) None None)
       (testBlock ''a'' memory) None None"

text \<open>
  What \<open>createRedactedStub\<close> returns (its hash is always computed: the stub payload is an
  object), and the function that \<open>filterBySensitivity\<close> maps over the blocks.
\<close>

definition stubOf :: "(string \<Rightarrow> string) \<Rightarrow> int \<Rightarrow> ContextBlock \<Rightarrow> string \<Rightarrow> ContextBlock" where
  "stubOf sha256 nowMs b reason =
     (let stubPayload = JObj [(''originalBlockHash'', JStr (blockHash b)),
                              (''reason'', JStr reason),
                              (''placeholder'', JStr stubPlaceholder)];
          stubMeta = \<lparr>kind = kind (meta b), sensitivity = public,
                      codecId = ''redacted-stub'', codecVersion = ''1.0.0'',
                      createdAt = nowMs div 1000,
                      source = source (meta b), tags = tags (meta b)\<rparr>
      in \<lparr>blockHash =
            sha256 (JSON_stringify (JObj
              [(''meta'', stableMetaJson (extractStableMetaSubset stubMeta)),
               (''payload'', JObj (sortObjectKeys
                   [(''originalBlockHash'', JStr (blockHash b)),
                    (''reason'', JStr reason),
                    (''placeholder'', JStr stubPlaceholder)]))])),
          meta = stubMeta, payload = stubPayload\<rparr>)"

definition redact :: "(string \<Rightarrow> string) \<Rightarrow> int \<Rightarrow> SensitivityLevel \<Rightarrow> ContextBlock \<Rightarrow> ContextBlock" where
  "redact sha256 nowMs maxLevel b =
     (if exceedsSensitivityLevel (sensitivity (meta b)) maxLevel
      then stubOf sha256 nowMs b (redactionReason (sensitivity (meta b)) maxLevel)
      else b)"

text \<open>
  A block of the output of \<open>pruneToolOutputs\<close> comes from a set of input blocks: it is one
  of them, or the replacement block made from one of them by the step.
\<close>

definition prunedFrom :: "(string \<Rightarrow> string) \<Rightarrow> ContextBlock set \<Rightarrow> ContextBlock \<Rightarrow> bool" where
  "prunedFrom sha256 S r \<longleftrightarrow>
     r \<in> S \<or> (\<exists>original \<in> S. \<exists>newPayload.
                 createReplacementBlock sha256 original newPayload
                   ''tool_output_prune'' ''1.0.0'' = Inr r)"

text \<open>
  Two JSON values are the same up to key order outside arrays: equal, or objects with the
  same distinct keys whose values are, key by key, the same up to key order. An array must
  be equal to its counterpart, the objects inside it included.
\<close>

definition canonValue :: "json \<Rightarrow> json" where
  "canonValue v = (case v of JObj inner \<Rightarrow> JObj (sortObjectKeys inner) | _ \<Rightarrow> v)"

inductive sameUpToKeyOrder :: "json \<Rightarrow> json \<Rightarrow> bool" where
  same_refl: "sameUpToKeyOrder v v"
| same_obj:
    "distinct (map fst xs) \<Longrightarrow> distinct (map fst ys) \<Longrightarrow> set (map fst xs) = set (map fst ys) \<Longrightarrow>
     (\<forall>k \<in> set (map fst xs).
        \<exists>v w. map_of xs k = Some v \<and> map_of ys k = Some w \<and> sameUpToKeyOrder v w) \<Longrightarrow>
     sameUpToKeyOrder (JObj xs) (JObj ys)"

text \<open>
  More concrete inputs: a block with a given sensitivity, a source and a tag; a view of
  given blocks; a \<open>system-rules\<close> block with given volatile fields; a
  \<open>conversation-history\<close> payload of one user message with one structured part; the
  metadata of a \<open>tool-schema\<close> block and a \<open>tool-schema\<close> payload written in two key orders.
\<close>

definition levelBlock :: "string \<Rightarrow> BlockKind \<Rightarrow> SensitivityLevel \<Rightarrow> ContextBlock" where
  "levelBlock h k s =
     \<lparr>blockHash = h,
      meta = \<lparr>kind = k, sensitivity = s, codecId = ''test'', codecVersion = ''1.0.0'',
              createdAt = 1000, source = Some ''session-1'', tags = Some [''t1'']\<rparr>,
      payload = JStr ''secret''\<rparr>"

definition viewOf :: "ContextBlock list \<Rightarrow> ContextView" where
  "viewOf bs = \<lparr>blocks = bs, tokenEstimate = None,
                stablePrefixHash = join ''|'' (map blockHash bs), view_createdAt = 0\<rparr>"

definition toolSchemaMeta :: BlockMeta where
  "toolSchemaMeta =
     \<lparr>kind = reference, sensitivity = public, codecId = ''tool-schema'',
      codecVersion = ''1.0.0'', createdAt = 1000, source = None, tags = None\<rparr>"

definition searchTool1 :: json where
  "searchTool1 =
     JObj [(''name'', JStr ''search''),
           (''description'', JStr '' Search the web ''),
           (''inputSchema'',
              JObj [(''type'', JStr ''object''),
                    (''properties'', JObj [(''q'', JObj [(''type'', JStr ''string'')]),
                                           (''limit'', JObj [(''type'', JStr ''number'')])]),
                    (''required'', JArr [JStr ''q''])])]"

definition searchTool2 :: json where
  "searchTool2 =
     JObj [(''inputSchema'',
              JObj [(''required'', JArr [JStr ''q'']),
                    (''properties'', JObj [(''limit'', JObj [(''type'', JStr ''number'')]),
                                           (''q'', JObj [(''type'', JStr ''string'')])]),
                    (''type'', JStr ''object'')]),
           (''description'', JStr '' Search the web ''),
           (''name'', JStr ''search'')]"

definition rulesBlock :: "int \<Rightarrow> string option \<Rightarrow> string list option \<Rightarrow> ContextBlock" where
  "rulesBlock t src tgs =
     \<lparr>blockHash = [],
      meta = \<lparr>kind = pinned, sensitivity = public, codecId = ''system-rules'',
              codecVersion = ''1.0.0'', createdAt = t, source = src, tags = tgs\<rparr>,
      payload = JObj [(''text'', JStr ''Be concise'')]\<rparr>"

definition historyMeta :: BlockMeta where
  "historyMeta =
     \<lparr>kind = history, sensitivity = public, codecId = ''conversation-history'',
      codecVersion = ''1.0.0'', createdAt = 1000, source = None, tags = None\<rparr>"

definition historyPayload :: "json \<Rightarrow> json" where
  "historyPayload part =
     JObj [(''messages'', JArr [JObj [(''role'', JStr ''user''), (''content'', JArr [part])]])]"

text \<open>The same payload with the keys of the message written in the other order.\<close>

definition historyPayloadContentFirst :: "json \<Rightarrow> json" where
  "historyPayloadContentFirst part =
     JObj [(''messages'', JArr [JObj [(''content'', JArr [part]), (''role'', JStr ''user'')]])]"

text \<open>
  A history block of three messages whose middle one, from the assistant, has an empty
  structured content; and the registry holding the \<open>conversation-history\<close> codec.
\<close>

definition emptyReplyBlock :: ContextBlock where
  "emptyReplyBlock =
     \<lparr>blockHash = ''hH'',
      meta = \<lparr>kind = history, sensitivity = public, codecId = ''conversation-history'',
              codecVersion = ''1.0.0'', createdAt = 1000, source = None, tags = None\<rparr>,
      payload = JObj [(''messages'', JArr
        [JObj [(''role'', JStr ''user''), (''content'', JStr ''a'')],
         JObj [(''role'', JStr ''assistant''), (''content'', JArr [])],
         JObj [(''role'', JStr ''user''), (''content'', JStr ''b'')]])]\<rparr>"

definition historyRegistry :: "string \<rightharpoonup> GeminiRenderer" where
  "historyRegistry = [''conversation-history'' \<mapsto> ConversationHistoryCodec_renderGemini]"


text \<open>A tool output block of the tool \<open>tool-bash\<close> with given creation time and output.\<close>

definition toolBlock :: "string \<Rightarrow> int \<Rightarrow> string \<Rightarrow> ContextBlock" where
  "toolBlock h t out =
     \<lparr>blockHash = h,
      meta = \<lparr>kind = tool_output, sensitivity = public, codecId = ''tool-bash'',
              codecVersion = ''1.0.0'', createdAt = t, source = Some ''run-1'', tags = None\<rparr>,
      payload = JObj [(''output'', JStr out), (''exitCode'', JNum 0)]\<rparr>"


section \<open>Gemini alternation\<close>

text \<open>
  C8. The claim is that the compiled Gemini messages never hold two consecutive messages of
  one role. The loop drops a message whose merged parts are empty without joining its two
  neighbours. One history block of the built-in \<open>conversation-history\<close> codec whose
  middle message, from the assistant, has the empty structured content \<open>[]\<close> compiles to two
  consecutive user messages.
\<close>

theorem compileGeminiContext_consecutive_user:
  "compileGeminiContext_messages [emptyReplyBlock] historyRegistry
     = Inr [\<lparr>role = user, parts = [JObj [(''text'', JStr ''a'')]]\<rparr>,
            \<lparr>role = user, parts = [JObj [(''text'', JStr ''b'')]]\<rparr>]
   \<and> enforceAlternatingRoles
       [\<lparr>role = user, parts = [JObj [(''text'', JStr ''a'')]]\<rparr>,
        \<lparr>role = model, parts = []\<rparr>,
        \<lparr>role = user, parts = [JObj [(''text'', JStr ''b'')]]\<rparr>]
     = [\<lparr>role = user, parts = [JObj [(''text'', JStr ''a'')]]\<rparr>,
        \<lparr>role = user, parts = [JObj [(''text'', JStr ''b'')]]\<rparr>]"
  by (simp add: compileGeminiContext_messages_def compileMessages_def compileBlock_def
      emptyReplyBlock_def historyRegistry_def ConversationHistoryCodec_renderGemini_def
      historyGeminiMessage_def getProp_def asMessage_def enforceAlternatingRoles_def
      flush_def)

text \<open>
  What the loop does achieve, on messages none of which has the role \<open>null\<close>: the parts
  of the output are the parts of the input, in order; and when moreover every input
  message has at least one part, no two consecutive output messages share a role.
\<close>

lemma distinct_adj_snoc:
  "distinct_adj (xs @ [x]) \<longleftrightarrow> distinct_adj xs \<and> (xs \<noteq> [] \<longrightarrow> last xs \<noteq> x)"
  by (auto simp: distinct_adj_append_iff)

lemma loopInv_step:
  assumes "loopInv (result, currentRole, currentParts)" and "parts msg \<noteq> []"
    and "role msg \<noteq> Some JNull"
  shows "loopInv (if role msg = currentRole
                  then (result, currentRole, currentParts @ parts msg)
                  else (flush result currentRole currentParts, role msg, parts msg))"
  using assms by (auto simp: loopInv_def flush_def distinct_adj_snoc last_map)

lemma alternatingLoop_inv:
  "loopInv st \<Longrightarrow> \<forall>m \<in> set messages. parts m \<noteq> [] \<and> role m \<noteq> Some JNull \<Longrightarrow>
   loopInv (alternatingLoop messages st)"
proof (induction messages arbitrary: st)
  case Nil
  then show ?case by simp
next
  case (Cons msg rest)
  obtain result currentRole currentParts where st: "st = (result, currentRole, currentParts)"
    by (cases st)
  from Cons.prems have "parts msg \<noteq> []" "role msg \<noteq> Some JNull" by simp_all
  from loopInv_step [OF Cons.prems(1) [unfolded st] this] Cons.prems(2)
  show ?case unfolding st
    by (auto intro!: Cons.IH split: if_splits)
qed

lemma enforceAlternatingRoles_alternates:
  assumes "\<forall>m \<in> set messages. parts m \<noteq> [] \<and> role m \<noteq> Some JNull"
  shows "distinct_adj (map role (enforceAlternatingRoles messages))"
proof -
  have "loopInv ([], Some JNull, [])" by (simp add: loopInv_def)
  from alternatingLoop_inv [OF this assms]
  have inv: "loopInv (alternatingLoop messages ([], Some JNull, []))" .
  obtain result currentRole currentParts where
    r: "alternatingLoop messages ([], Some JNull, []) = (result, currentRole, currentParts)"
    by (cases "alternatingLoop messages ([], Some JNull, [])")
  with inv show ?thesis
    by (auto simp: enforceAlternatingRoles_def loopInv_def flush_def distinct_adj_snoc last_map
        split: if_splits)
qed

lemma flush_parts:
  "concat (map parts (flush result currentRole currentParts))
     = concat (map parts result) @ (if currentRole = Some JNull then [] else currentParts)"
  by (auto simp: flush_def)

lemma alternatingLoop_parts:
  "alternatingLoop messages (result, currentRole, currentParts) = (result', currentRole', currentParts') \<Longrightarrow>
   (currentRole = Some JNull \<longrightarrow> currentParts = []) \<Longrightarrow>
   \<forall>m \<in> set messages. role m \<noteq> Some JNull \<Longrightarrow>
   concat (map parts result') @ currentParts'
     = concat (map parts result) @ currentParts @ concat (map parts messages)
   \<and> (currentRole' = Some JNull \<longrightarrow> currentParts' = [])"
proof (induction messages arbitrary: result currentRole currentParts)
  case Nil
  then show ?case by simp
next
  case (Cons msg rest)
  from Cons.prems(3) have rest: "\<forall>m \<in> set rest. role m \<noteq> Some JNull"
    and msg: "role msg \<noteq> Some JNull" by simp_all
  show ?case
  proof (cases "role msg = currentRole")
    case True
    with Cons.prems have "alternatingLoop rest (result, currentRole, currentParts @ parts msg)
      = (result', currentRole', currentParts')" by simp
    from Cons.IH [OF this _ rest] True msg show ?thesis by auto
  next
    case False
    with Cons.prems have "alternatingLoop rest
        (flush result currentRole currentParts, role msg, parts msg)
      = (result', currentRole', currentParts')" by simp
    from Cons.IH [OF this _ rest] msg Cons.prems(2) show ?thesis
      by (auto simp: flush_parts)
  qed
qed

lemma enforceAlternatingRoles_parts:
  assumes "\<forall>m \<in> set messages. role m \<noteq> Some JNull"
  shows "concat (map parts (enforceAlternatingRoles messages)) = concat (map parts messages)"
proof -
  obtain result currentRole currentParts where
    r: "alternatingLoop messages ([], Some JNull, []) = (result, currentRole, currentParts)"
    by (cases "alternatingLoop messages ([], Some JNull, [])")
  from alternatingLoop_parts [OF r _ assms] show ?thesis
    by (auto simp: enforceAlternatingRoles_def r flush_parts)
qed


section \<open>Merging queries with conflicting sources\<close>

text \<open>
  C6. The claim is that merging two queries with different \<open>source\<close> values gives a query
  that selects nothing. \<open>mergeQueries\<close> marks the conflict by \<open>kinds = []\<close>, but
  \<open>matchesQuery\<close> reads an empty \<open>kinds\<close> as no constraint, and the merged query keeps the
  first source: on a graph holding one block of source \<open>s1\<close>, selecting with
  \<open>mergeQueries [{source: s1}, {source: s2}]\<close> returns that block.
\<close>

theorem mergeQueries_conflicting_source_selects:
  "mergeQueries [emptyQuery\<lparr>q_source := Some ''s1''\<rparr>, emptyQuery\<lparr>q_source := Some ''s2''\<rparr>]
     = emptyQuery\<lparr>q_kinds := Some [], q_source := Some ''s1''\<rparr>
   \<and> select
       (addBlock emptyGraph
          \<lparr>blockHash = ''h1'',
           meta = \<lparr>kind = memory, sensitivity = public, codecId = ''unsafe-text'',
                   codecVersion = ''1.0.0'', createdAt = 1000, source = Some ''s1'', tags = None\<rparr>,
           payload = JObj [(''text'', JStr ''x'')]\<rparr> None None)
       (mergeQueries [emptyQuery\<lparr>q_source := Some ''s1''\<rparr>, emptyQuery\<lparr>q_source := Some ''s2''\<rparr>])
     = [\<lparr>blockHash = ''h1'',
         meta = \<lparr>kind = memory, sensitivity = public, codecId = ''unsafe-text'',
                 codecVersion = ''1.0.0'', createdAt = 1000, source = Some ''s1'', tags = None\<rparr>,
         payload = JObj [(''text'', JStr ''x'')]\<rparr>]"
  by (simp add: select_def getAllBlocks_def addBlock_def hasBlock_def emptyGraph_def
      mergeQueries_def mergeStep_def emptyQuery_def mergeKinds_def mergeTags_def
      mergeMinSensitivity_def mergeMaxSensitivity_def mergeSource_def mergeCreatedAt_def
      mergeHashLists_def mergeMaxTokens_def matchesQuery_def)

section \<open>Ordering of views\<close>

lemma getKindIndex_range: "0 \<le> getKindIndex k \<and> getKindIndex k \<le> 6"
  by (cases k) (simp_all add: getKindIndex_def KIND_ORDER_def)


lemma compareKinds_total: "compareKinds a b = Inr (getKindIndex a - getKindIndex b)"
  using getKindIndex_range [of a] getKindIndex_range [of b]
  by (simp add: compareKinds_def Let_def)

lemma compareBlocks_total: "compareBlocks lc a b = Inr (blockCmp lc a b)"
  by (simp add: compareBlocks_def compareKinds_total blockCmp_def)

lemma insertBy_Cons_compareBlocks:
  "insertBy (compareBlocks lc) x (y # ys) =
     (if blockCmp lc x y \<le> 0 then Inr (x # y # ys)
      else (case insertBy (compareBlocks lc) x ys of Inl e \<Rightarrow> Inl e | Inr zs \<Rightarrow> Inr (y # zs)))"
  by (simp add: compareBlocks_total)

text \<open>The sort never fails and returns a permutation, whatever the collation.\<close>

lemma insertBy_total:
  "\<exists>zs. insertBy (compareBlocks lc) x ys = Inr zs \<and> mset zs = mset (x # ys)"
proof (induction ys)
  case Nil
  show ?case by simp
next
  case (Cons y ys)
  then obtain zs where "insertBy (compareBlocks lc) x ys = Inr zs" "mset zs = mset (x # ys)"
    by blast
  then show ?case
    by (simp del: insertBy.simps add: insertBy_Cons_compareBlocks)
qed

lemma sortBy_total:
  "\<exists>zs. sortBy (compareBlocks lc) xs = Inr zs \<and> mset zs = mset xs"
proof (induction xs)
  case Nil
  show ?case by simp
next
  case (Cons x xs)
  then obtain ys where ys: "sortBy (compareBlocks lc) xs = Inr ys" "mset ys = mset xs"
    by blast
  from insertBy_total [of lc x ys] ys show ?case by auto
qed














lemma budgetLoop_spec:
  "budgetLoop est m bs tot conf incl = (res, e) \<Longrightarrow>
   \<exists>taken rest. bs = taken @ rest \<and> res = incl @ taken
     \<and> tokens e = tot + sum_list (map (\<lambda>b. est_tokens (estimateBlock est b)) taken)
     \<and> (tot \<le> m \<longrightarrow> tokens e \<le> m)
     \<and> (truncated e \<longleftrightarrow> rest \<noteq> [])
     \<and> (\<forall>b r. rest = b # r \<longrightarrow> m < tokens e + est_tokens (estimateBlock est b))"
proof (induction bs arbitrary: tot conf incl)
  case Nil
  then show ?case by auto
next
  case (Cons b bs)
  show ?case
  proof (cases "tot + est_tokens (estimateBlock est b) > m")
    case True
    with Cons.prems show ?thesis by (auto simp: Let_def)
  next
    case False
    with Cons.prems have "budgetLoop est m bs (tot + est_tokens (estimateBlock est b))
        (trackConfidence (est_confidence (estimateBlock est b)) conf) (incl @ [b]) = (res, e)"
      by (simp add: Let_def)
    from Cons.IH [OF this] obtain taken rest where
      h: "bs = taken @ rest \<and> res = (incl @ [b]) @ taken
         \<and> tokens e = tot + est_tokens (estimateBlock est b)
            + sum_list (map (\<lambda>b. est_tokens (estimateBlock est b)) taken)
         \<and> (tot + est_tokens (estimateBlock est b) \<le> m \<longrightarrow> tokens e \<le> m)
         \<and> (truncated e \<longleftrightarrow> rest \<noteq> [])
         \<and> (\<forall>b r. rest = b # r \<longrightarrow> m < tokens e + est_tokens (estimateBlock est b))"
      by blast
    from h False have "b # bs = (b # taken) @ rest \<and> res = incl @ (b # taken)
      \<and> tokens e = tot + sum_list (map (\<lambda>b. est_tokens (estimateBlock est b)) (b # taken))
      \<and> (tot \<le> m \<longrightarrow> tokens e \<le> m)
      \<and> (truncated e \<longleftrightarrow> rest \<noteq> [])
      \<and> (\<forall>b r. rest = b # r \<longrightarrow> m < tokens e + est_tokens (estimateBlock est b))"
      by auto
    then show ?thesis by blast
  qed
qed


lemmas eval_defs = testGraph_def hexGraph_def mixedCaseGraph_def testBlock_def flatEstimator_def
  select_def getAllBlocks_def addBlock_def hasBlock_def emptyGraph_def emptyQuery_def
  matchesQuery_def sortBlocksDeterministic_def compareBlocks_def compareKinds_def
  getKindIndex_def KIND_ORDER_def alnumCollation_def primaryWeight_def isUpper_def
  createContextView_def applyTokenBudget_def computeStablePrefixHash_def trackConfidence_def




section \<open>Token budget\<close>

text \<open>
  The claim C4 read on the code: \<open>maxTokens\<close> is any number, and \<open>ContextBuilder.compile\<close>
  passes \<open>contextWindow - completionReserve\<close> unchecked. With a negative \<open>maxTokens\<close> the first
  block already exceeds the budget, and the empty view has the token count \<open>0\<close>, which is
  above \<open>maxTokens\<close>.
\<close>

theorem createContextView_budget_counterexample:
  "createContextView alnumCollation id 0 testGraph
      \<lparr>query = None, tokenEstimator = Some (flatEstimator 25), maxTokens = Some (- 1)\<rparr>
     = Inr \<lparr>blocks = [],
            tokenEstimate = Some \<lparr>tokens = 0, confidence = exact, truncated = True\<rparr>,
            stablePrefixHash = [], view_createdAt = 0\<rparr>
   \<and> \<not> ((0 :: int) \<le> - 1)"
  by (simp add: eval_defs)

text \<open>
  C4, amended. With an estimator and \<open>maxTokens = budget\<close>, the view holds a prefix of the
  sorted selection; the recorded token count is the sum of the estimates of the included
  blocks and, when the budget is not negative, is at most the budget; \<open>truncated\<close> is set
  exactly when some block is left out; and then the first block left out would take the
  sum over the budget.
\<close>

theorem createContextView_budget:
  assumes "tokenEstimator options = Some estimator" and "maxTokens options = Some budget"
  shows "\<exists>v sortedBlocks rest e.
           sortBlocksDeterministic localeCompare
             (select g (case query options of Some q' \<Rightarrow> q' | None \<Rightarrow> emptyQuery))
             = Inr sortedBlocks
         \<and> createContextView localeCompare sha256 nowMs g options = Inr v
         \<and> sortedBlocks = blocks v @ rest
         \<and> tokenEstimate v = Some e
         \<and> tokens e = sum_list (map (\<lambda>b. est_tokens (estimateBlock estimator b)) (blocks v))
         \<and> (0 \<le> budget \<longrightarrow> tokens e \<le> budget)
         \<and> (truncated e \<longleftrightarrow> rest \<noteq> [])
         \<and> (\<forall>b r. rest = b # r \<longrightarrow> budget < tokens e + est_tokens (estimateBlock estimator b))"
proof -
  let ?q = "case query options of Some q' \<Rightarrow> q' | None \<Rightarrow> emptyQuery"
  obtain zs where zs: "sortBlocksDeterministic localeCompare (select g ?q) = Inr zs"
    using sortBy_total [of localeCompare "select g ?q"]
    by (auto simp: sortBlocksDeterministic_def)
  obtain res e where r: "applyTokenBudget zs estimator budget = (res, e)"
    by (cases "applyTokenBudget zs estimator budget")
  then obtain taken rest where
    h: "zs = taken @ rest \<and> res = [] @ taken
        \<and> tokens e = 0 + sum_list (map (\<lambda>b. est_tokens (estimateBlock estimator b)) taken)
        \<and> (0 \<le> budget \<longrightarrow> tokens e \<le> budget)
        \<and> (truncated e \<longleftrightarrow> rest \<noteq> [])
        \<and> (\<forall>b r. rest = b # r \<longrightarrow> budget < tokens e + est_tokens (estimateBlock estimator b))"
    using budgetLoop_spec [of estimator budget zs 0 exact "[]" res e]
    unfolding applyTokenBudget_def by blast
  have v: "createContextView localeCompare sha256 nowMs g options =
           Inr \<lparr>blocks = res, tokenEstimate = Some e,
                stablePrefixHash = computeStablePrefixHash sha256 res,
                view_createdAt = nowMs div 1000\<rparr>"
    using assms zs r by (simp add: createContextView_def)
  from h have h2: "zs = res @ rest
      \<and> tokens e = sum_list (map (\<lambda>b. est_tokens (estimateBlock estimator b)) res)
      \<and> (0 \<le> budget \<longrightarrow> tokens e \<le> budget) \<and> (truncated e \<longleftrightarrow> rest \<noteq> [])
      \<and> (\<forall>b r. rest = b # r \<longrightarrow> budget < tokens e + est_tokens (estimateBlock estimator b))"
    by auto
  show ?thesis
    apply (rule exI [of _ "\<lparr>blocks = res, tokenEstimate = Some e,
                stablePrefixHash = computeStablePrefixHash sha256 res,
                view_createdAt = nowMs div 1000\<rparr>"])
    apply (rule exI [of _ zs], rule exI [of _ rest], rule exI [of _ e])
    using h2 zs v by auto
qed

theorem createContextView_budget_witness:
  "createContextView alnumCollation id 0 testGraph
      \<lparr>query = None, tokenEstimator = Some (flatEstimator 25), maxTokens = Some 50\<rparr>
     = Inr \<lparr>blocks = [testBlock ''hP'' pinned, testBlock ''hM'' memory],
            tokenEstimate = Some \<lparr>tokens = 50, confidence = low, truncated = True\<rparr>,
            stablePrefixHash = ''hP|hM'', view_createdAt = 0\<rparr>"
  using createContextView_budget [of
      "\<lparr>query = None, tokenEstimator = Some (flatEstimator 25), maxTokens = Some 50\<rparr>"
      "flatEstimator 25" 50 alnumCollation testGraph id 0]
  by (simp add: eval_defs)

text \<open>
  The claim C9 read on the code: with \<open>maxTokens = 0\<close> an empty selection gives
  \<open>truncated = false\<close>; blocks estimated at zero tokens are all included; and without an
  estimator the budget is not applied at all.
\<close>

theorem createContextView_maxTokens_zero_counterexample:
  "createContextView alnumCollation id 0 emptyGraph
      \<lparr>query = None, tokenEstimator = Some (flatEstimator 25), maxTokens = Some 0\<rparr>
     = Inr \<lparr>blocks = [],
            tokenEstimate = Some \<lparr>tokens = 0, confidence = exact, truncated = False\<rparr>,
            stablePrefixHash = [], view_createdAt = 0\<rparr>
   \<and> createContextView alnumCollation id 0 testGraph
      \<lparr>query = None, tokenEstimator = Some (flatEstimator 0), maxTokens = Some 0\<rparr>
     = Inr \<lparr>blocks = [testBlock ''hP'' pinned, testBlock ''hM'' memory, testBlock ''hH'' history],
            tokenEstimate = Some \<lparr>tokens = 0, confidence = low, truncated = False\<rparr>,
            stablePrefixHash = ''hP|hM|hH'', view_createdAt = 0\<rparr>
   \<and> createContextView alnumCollation id 0 testGraph
      \<lparr>query = None, tokenEstimator = None, maxTokens = Some 0\<rparr>
     = Inr \<lparr>blocks = [testBlock ''hP'' pinned, testBlock ''hM'' memory, testBlock ''hH'' history],
            tokenEstimate = None,
            stablePrefixHash = ''hP|hM|hH'', view_createdAt = 0\<rparr>"
  by (simp add: eval_defs)

text \<open>
  C9, amended. A view is created with an estimator and \<open>maxTokens = 0\<close>. When the first
  block of the sorted selection has a positive estimate, the view has no blocks and its
  token estimate records \<open>truncated = true\<close> with zero tokens. When the query selects no
  block, the view has no blocks and its token estimate records \<open>truncated = false\<close>.
\<close>

theorem createContextView_maxTokens_zero:
  assumes "tokenEstimator options = Some estimator" and "maxTokens options = Some 0"
  shows "(\<forall>b rest.
            sortBlocksDeterministic localeCompare
              (select g (case query options of Some q' \<Rightarrow> q' | None \<Rightarrow> emptyQuery))
              = Inr (b # rest)
            \<and> 0 < est_tokens (estimateBlock estimator b) \<longrightarrow>
            createContextView localeCompare sha256 nowMs g options =
              Inr \<lparr>blocks = [],
                   tokenEstimate = Some \<lparr>tokens = 0, confidence = exact, truncated = True\<rparr>,
                   stablePrefixHash = sha256 [], view_createdAt = nowMs div 1000\<rparr>)
       \<and> (select g (case query options of Some q' \<Rightarrow> q' | None \<Rightarrow> emptyQuery) = [] \<longrightarrow>
            createContextView localeCompare sha256 nowMs g options =
              Inr \<lparr>blocks = [],
                   tokenEstimate = Some \<lparr>tokens = 0, confidence = exact, truncated = False\<rparr>,
                   stablePrefixHash = sha256 [], view_createdAt = nowMs div 1000\<rparr>)"
  using assms
  by (auto simp: createContextView_def applyTokenBudget_def computeStablePrefixHash_def
      sortBlocksDeterministic_def)

theorem createContextView_maxTokens_zero_witness:
  "sortBlocksDeterministic alnumCollation (select testGraph emptyQuery)
     = Inr [testBlock ''hP'' pinned, testBlock ''hM'' memory, testBlock ''hH'' history]
   \<and> createContextView alnumCollation id 0 testGraph
      \<lparr>query = None, tokenEstimator = Some (flatEstimator 25), maxTokens = Some 0\<rparr>
     = Inr \<lparr>blocks = [],
            tokenEstimate = Some \<lparr>tokens = 0, confidence = exact, truncated = True\<rparr>,
            stablePrefixHash = [], view_createdAt = 0\<rparr>
   \<and> createContextView alnumCollation id 0 emptyGraph
      \<lparr>query = None, tokenEstimator = Some (flatEstimator 25), maxTokens = Some 0\<rparr>
     = Inr \<lparr>blocks = [],
            tokenEstimate = Some \<lparr>tokens = 0, confidence = exact, truncated = False\<rparr>,
            stablePrefixHash = [], view_createdAt = 0\<rparr>"
proof -
  have s: "sortBlocksDeterministic alnumCollation (select testGraph emptyQuery)
     = Inr [testBlock ''hP'' pinned, testBlock ''hM'' memory, testBlock ''hH'' history]"
    by (simp add: eval_defs)
  have p: "0 < est_tokens (estimateBlock (flatEstimator 25) (testBlock ''hP'' pinned))"
    by (simp add: flatEstimator_def)
  have e: "select emptyGraph emptyQuery = []"
    by (simp add: select_def getAllBlocks_def emptyGraph_def)
  show ?thesis
    using s p e
      createContextView_maxTokens_zero [of
        "\<lparr>query = None, tokenEstimator = Some (flatEstimator 25), maxTokens = Some 0\<rparr>"
        "flatEstimator 25" alnumCollation testGraph id 0]
      createContextView_maxTokens_zero [of
        "\<lparr>query = None, tokenEstimator = Some (flatEstimator 25), maxTokens = Some 0\<rparr>"
        "flatEstimator 25" alnumCollation emptyGraph id 0]
    by simp
qed

section \<open>Fork redaction\<close>

lemma mapE_total: "(\<And>x. x \<in> set xs \<Longrightarrow> g x = Inr (f x)) \<Longrightarrow> mapE g xs = Inr (map f xs)"
  by (induction xs) auto

lemma RedactedStubCodec_stub:
  "canonicalize RedactedStubCodec
     (JObj [(''originalBlockHash'', JStr h), (''reason'', JStr r), (''placeholder'', JStr p)])
   = Inr (JObj (sortObjectKeys
       [(''originalBlockHash'', JStr h), (''reason'', JStr r), (''placeholder'', JStr p)]))"
  by (simp add: RedactedStubCodec_def getProp_def)

lemma createRedactedStub_total:
  "createRedactedStub sha256 nowMs b reason = Inr (stubOf sha256 nowMs b reason)"
  by (simp add: createRedactedStub_def stubOf_def computeBlockHash_def hashedText_def
      RedactedStubCodec_stub Let_def)
    (simp add: RedactedStubCodec_def)

lemma filterBySensitivity_total:
  "filterBySensitivity sha256 nowMs view maxLevel
     = Inr (map (redact sha256 nowMs maxLevel) (blocks view))"
  unfolding filterBySensitivity_def
  by (rule mapE_total) (simp add: redact_def createRedactedStub_total)


lemmas json_eval = sortObjectKeys.simps enumerationOrder_def isArrayIndex_def isDigit_def
  quote_def escapeChar_def numberToString_def natToString.simps digitChar_def hexDigit_def

lemmas fork_eval = createFork_def filterBySensitivity_def createRedactedStub_def
  computeBlockHash_def hashedText_def RedactedStubCodec_def getProp_def
  exceedsSensitivityLevel_def redactionReason_def stubPlaceholder_def
  extractStableMetaSubset_def stableMetaJson_def levelBlock_def viewOf_def

text \<open>
  The claim C5 read on the code: after the redaction \<open>createFork\<close> drops the blocks of kind
  \<open>history\<close> and \<open>state\<close> unless \<open>includeHistory\<close> and \<open>includeState\<close> are set, stubs
  included since a stub keeps the kind. With the default options a restricted \<open>state\<close>
  block leaves no stub in the fork, and a public \<open>history\<close> block is not passed through.
\<close>

theorem createFork_drops_stub_counterexample:
  "createFork id 0 (viewOf [levelBlock ''hS'' state restricted])
      \<lparr>includeHistory = None, includeState = None, maxSensitivity = None, budgetOverride = None\<rparr>
     = Inr \<lparr>blocks = [], tokenEstimate = None, stablePrefixHash = [], view_createdAt = 0\<rparr>
   \<and> createFork id 0 (viewOf [levelBlock ''hH'' history public])
      \<lparr>includeHistory = None, includeState = None, maxSensitivity = None, budgetOverride = None\<rparr>
     = Inr \<lparr>blocks = [], tokenEstimate = None, stablePrefixHash = [], view_createdAt = 0\<rparr>"
  by (simp add: fork_eval json_eval)

lemma createFork_blocks:
  "\<exists>v. createFork sha256 nowMs parentView options = Inr v \<and>
       blocks v =
         filter (\<lambda>s. (includeHistory options = Some True \<or> kind (meta s) \<noteq> history)
                   \<and> (includeState options = Some True \<or> kind (meta s) \<noteq> state))
           (map (redact sha256 nowMs
                   (case maxSensitivity options of Some m \<Rightarrow> m | None \<Rightarrow> public))
                (blocks parentView))"
  by (auto simp: createFork_def filterBySensitivity_total Let_def intro: filter_cong)

lemma redact_kind: "kind (meta (redact sha256 nowMs maxLevel b)) = kind (meta b)"
  by (simp add: redact_def stubOf_def Let_def)

lemma redact_sensitivity:
  "SENSITIVITY_ORDER (sensitivity (meta (redact sha256 nowMs maxLevel b)))
     \<le> SENSITIVITY_ORDER maxLevel"
  by (cases maxLevel) (simp_all add: redact_def stubOf_def Let_def exceedsSensitivityLevel_def)

text \<open>
  C5, amended. For every parent view and all fork options \<open>createFork\<close> succeeds.
  \<open>filterBySensitivity\<close> returns a list of the length of the parent view in which, at
  every index, a parent block whose sensitivity exceeds \<open>maxSensitivity\<close> (default
  \<open>public\<close>) is replaced by a \<open>redacted-stub\<close> of sensitivity \<open>public\<close> and of the same
  kind whose payload has \<open>originalBlockHash\<close> equal to the parent block's hash and the
  reason \<open>Sensitivity level '<lvl>' exceeds maximum '<max>'\<close>, and any other block is
  kept as it is. The forked view holds, in order, the blocks of this list whose kind is
  not \<open>history\<close>, unless \<open>includeHistory\<close> is \<open>true\<close>, and not \<open>state\<close>, unless
  \<open>includeState\<close> is \<open>true\<close>. So when no block of the parent view is of a kind that the
  options drop, the forked view is this list, each stub at the index of the block it
  replaces. No block of the forked view exceeds \<open>maxSensitivity\<close>.
\<close>

theorem createFork_redaction:
  "\<exists>v rs.
      createFork sha256 nowMs parentView options = Inr v
    \<and> filterBySensitivity sha256 nowMs parentView
         (case maxSensitivity options of Some m \<Rightarrow> m | None \<Rightarrow> public) = Inr rs
    \<and> length rs = length (blocks parentView)
    \<and> (\<forall>i. i < length (blocks parentView) \<longrightarrow>
          (let b = blocks parentView ! i; s = rs ! i;
               maxLevel = (case maxSensitivity options of Some m \<Rightarrow> m | None \<Rightarrow> public)
           in if SENSITIVITY_ORDER (sensitivity (meta b)) > SENSITIVITY_ORDER maxLevel
              then codecId (meta s) = ''redacted-stub''
                 \<and> getProp (payload s) ''originalBlockHash'' = Some (JStr (blockHash b))
                 \<and> getProp (payload s) ''reason'' =
                     Some (JStr (''Sensitivity level '' @ [CHR 0x27]
                             @ sensitivityName (sensitivity (meta b)) @ [CHR 0x27]
                             @ '' exceeds maximum '' @ [CHR 0x27]
                             @ sensitivityName maxLevel @ [CHR 0x27]))
                 \<and> sensitivity (meta s) = public
                 \<and> kind (meta s) = kind (meta b)
              else s = b))
    \<and> blocks v =
         filter (\<lambda>s. (includeHistory options = Some True \<or> kind (meta s) \<noteq> history)
                   \<and> (includeState options = Some True \<or> kind (meta s) \<noteq> state)) rs
    \<and> ((\<forall>b \<in> set (blocks parentView).
            (includeHistory options = Some True \<or> kind (meta b) \<noteq> history)
          \<and> (includeState options = Some True \<or> kind (meta b) \<noteq> state))
         \<longrightarrow> blocks v = rs)
    \<and> (\<forall>s \<in> set (blocks v).
          SENSITIVITY_ORDER (sensitivity (meta s))
            \<le> SENSITIVITY_ORDER (case maxSensitivity options of Some m \<Rightarrow> m | None \<Rightarrow> public))"
proof -
  let ?m = "case maxSensitivity options of Some m \<Rightarrow> m | None \<Rightarrow> public"
  let ?rs = "map (redact sha256 nowMs ?m) (blocks parentView)"
  let ?keep = "\<lambda>s. (includeHistory options = Some True \<or> kind (meta s) \<noteq> history)
                   \<and> (includeState options = Some True \<or> kind (meta s) \<noteq> state)"
  from createFork_blocks [of sha256 nowMs parentView options] obtain v where
    v: "createFork sha256 nowMs parentView options = Inr v" "blocks v = filter ?keep ?rs"
    by blast
  have f: "filterBySensitivity sha256 nowMs parentView ?m = Inr ?rs"
    by (rule filterBySensitivity_total)
  have idx: "\<forall>i. i < length (blocks parentView) \<longrightarrow>
          (let b = blocks parentView ! i; s = ?rs ! i; maxLevel = ?m
           in if SENSITIVITY_ORDER (sensitivity (meta b)) > SENSITIVITY_ORDER maxLevel
              then codecId (meta s) = ''redacted-stub''
                 \<and> getProp (payload s) ''originalBlockHash'' = Some (JStr (blockHash b))
                 \<and> getProp (payload s) ''reason'' =
                     Some (JStr (''Sensitivity level '' @ [CHR 0x27]
                             @ sensitivityName (sensitivity (meta b)) @ [CHR 0x27]
                             @ '' exceeds maximum '' @ [CHR 0x27]
                             @ sensitivityName maxLevel @ [CHR 0x27]))
                 \<and> sensitivity (meta s) = public
                 \<and> kind (meta s) = kind (meta b)
              else s = b)"
    by (simp add: redact_def exceedsSensitivityLevel_def stubOf_def getProp_def
        redactionReason_def Let_def)
  have same: "(\<forall>b \<in> set (blocks parentView). ?keep b) \<longrightarrow> blocks v = ?rs"
  proof
    assume "\<forall>b \<in> set (blocks parentView). ?keep b"
    then have "\<forall>s \<in> set ?rs. ?keep s" by (simp add: redact_kind)
    then have "filter ?keep ?rs = ?rs" by (rule filter_True)
    with v(2) show "blocks v = ?rs" by simp
  qed
  have leak: "\<forall>s \<in> set (blocks v).
      SENSITIVITY_ORDER (sensitivity (meta s)) \<le> SENSITIVITY_ORDER ?m"
    using v(2) by (auto simp: redact_sensitivity)
  have len: "length ?rs = length (blocks parentView)" by simp
  from v f len idx same leak show ?thesis by blast
qed

theorem createFork_redaction_witness:
  "map_sum id (\<lambda>v. map (\<lambda>b. (kind (meta b), codecId (meta b), sensitivity (meta b),
                                 getProp (payload b) ''originalBlockHash'')) (blocks v))
     (createFork id 0
        (viewOf [levelBlock ''hP'' pinned public, levelBlock ''hM'' memory internal,
                 levelBlock ''hS'' state restricted, levelBlock ''hR'' reference restricted])
        \<lparr>includeHistory = None, includeState = Some False, maxSensitivity = Some public,
         budgetOverride = None\<rparr>)
   = Inr [(pinned, ''test'', public, None),
          (memory, ''redacted-stub'', public, Some (JStr ''hM'')),
          (reference, ''redacted-stub'', public, Some (JStr ''hR''))]"
  using createFork_redaction [of id 0
      "viewOf [levelBlock ''hP'' pinned public, levelBlock ''hM'' memory internal,
               levelBlock ''hS'' state restricted, levelBlock ''hR'' reference restricted]"
      "\<lparr>includeHistory = None, includeState = Some False, maxSensitivity = Some public,
         budgetOverride = None\<rparr>"]
  by (simp add: fork_eval json_eval)

lemma createFork_subset:
  "\<exists>v. createFork sha256 nowMs view options = Inr v \<and>
       set (blocks v) \<subseteq> redact sha256 nowMs
          (case maxSensitivity options of Some m \<Rightarrow> m | None \<Rightarrow> public) ` set (blocks view)"
  by (auto simp: createFork_def filterBySensitivity_total Let_def)

text \<open>
  C10. A redacted stub keeps the kind, the source and the tags of the block it replaces;
  its sensitivity is \<open>public\<close>, its codec is \<open>redacted-stub\<close> version \<open>1.0.0\<close>, its
  \<open>createdAt\<close> is the current time in seconds, and its payload is the object of exactly
  \<open>originalBlockHash\<close>, \<open>reason\<close> and \<open>placeholder\<close>. Hence the list that
  \<open>filterBySensitivity\<close> returns has, position by position, the kinds, sources and tags of
  the view's blocks, and every block of the view that \<open>createFork\<close> returns is a block of
  the parent view or the stub made from one.
\<close>

theorem createRedactedStub_frame:
  "(\<exists>stub. createRedactedStub sha256 nowMs b reason = Inr stub
      \<and> kind (meta stub) = kind (meta b)
      \<and> source (meta stub) = source (meta b)
      \<and> tags (meta stub) = tags (meta b)
      \<and> sensitivity (meta stub) = public
      \<and> codecId (meta stub) = ''redacted-stub''
      \<and> codecVersion (meta stub) = ''1.0.0''
      \<and> createdAt (meta stub) = nowMs div 1000
      \<and> payload stub = JObj [(''originalBlockHash'', JStr (blockHash b)),
                             (''reason'', JStr reason),
                             (''placeholder'', JStr ''[REDACTED - Sensitive content removed]'')])
   \<and> (\<exists>bs. filterBySensitivity sha256 nowMs view maxLevel = Inr bs
        \<and> map (\<lambda>x. kind (meta x)) bs = map (\<lambda>x. kind (meta x)) (blocks view)
        \<and> map (\<lambda>x. source (meta x)) bs = map (\<lambda>x. source (meta x)) (blocks view)
        \<and> map (\<lambda>x. tags (meta x)) bs = map (\<lambda>x. tags (meta x)) (blocks view))
   \<and> (\<exists>v. createFork sha256 nowMs view options = Inr v
        \<and> (\<forall>s \<in> set (blocks v).
              s \<in> set (blocks view)
              \<or> (\<exists>b \<in> set (blocks view).
                    createRedactedStub sha256 nowMs b
                      (redactionReason (sensitivity (meta b))
                         (case maxSensitivity options of Some m \<Rightarrow> m | None \<Rightarrow> public))
                    = Inr s)))"
proof -
  have frame: "kind (meta (redact sha256 nowMs maxLevel x)) = kind (meta x)
      \<and> source (meta (redact sha256 nowMs maxLevel x)) = source (meta x)
      \<and> tags (meta (redact sha256 nowMs maxLevel x)) = tags (meta x)" for x
    by (simp add: redact_def stubOf_def Let_def)
  let ?m = "case maxSensitivity options of Some m \<Rightarrow> m | None \<Rightarrow> public"
  from createFork_subset [of sha256 nowMs view options] obtain v where
    v: "createFork sha256 nowMs view options = Inr v"
       "set (blocks v) \<subseteq> redact sha256 nowMs ?m ` set (blocks view)" by blast
  have "s \<in> set (blocks view)
        \<or> (\<exists>b \<in> set (blocks view).
              createRedactedStub sha256 nowMs b (redactionReason (sensitivity (meta b)) ?m) = Inr s)"
    if "s \<in> set (blocks v)" for s
  proof -
    from that v(2) obtain b where b: "b \<in> set (blocks view)" "s = redact sha256 nowMs ?m b"
      by blast
    then show ?thesis
      by (cases "exceedsSensitivityLevel (sensitivity (meta b)) ?m")
         (auto simp: redact_def createRedactedStub_total)
  qed
  with v(1) have third: "\<exists>v. createFork sha256 nowMs view options = Inr v
        \<and> (\<forall>s \<in> set (blocks v).
              s \<in> set (blocks view)
              \<or> (\<exists>b \<in> set (blocks view).
                    createRedactedStub sha256 nowMs b
                      (redactionReason (sensitivity (meta b)) ?m) = Inr s))"
    by blast
  have first: "\<exists>stub. createRedactedStub sha256 nowMs b reason = Inr stub
      \<and> kind (meta stub) = kind (meta b)
      \<and> source (meta stub) = source (meta b)
      \<and> tags (meta stub) = tags (meta b)
      \<and> sensitivity (meta stub) = public
      \<and> codecId (meta stub) = ''redacted-stub''
      \<and> codecVersion (meta stub) = ''1.0.0''
      \<and> createdAt (meta stub) = nowMs div 1000
      \<and> payload stub = JObj [(''originalBlockHash'', JStr (blockHash b)),
                             (''reason'', JStr reason),
                             (''placeholder'', JStr ''[REDACTED - Sensitive content removed]'')]"
    by (simp add: createRedactedStub_total stubOf_def stubPlaceholder_def Let_def)
  have second: "\<exists>bs. filterBySensitivity sha256 nowMs view maxLevel = Inr bs
        \<and> map (\<lambda>x. kind (meta x)) bs = map (\<lambda>x. kind (meta x)) (blocks view)
        \<and> map (\<lambda>x. source (meta x)) bs = map (\<lambda>x. source (meta x)) (blocks view)
        \<and> map (\<lambda>x. tags (meta x)) bs = map (\<lambda>x. tags (meta x)) (blocks view)"
    using frame by (simp add: filterBySensitivity_total)
  from first second third show ?thesis by blast
qed

theorem createRedactedStub_frame_witness:
  "map_sum id (\<lambda>v. map (\<lambda>b. (kind (meta b), sensitivity (meta b), source (meta b),
                                 tags (meta b), payload b)) (blocks v))
     (createFork id 0
        (viewOf [levelBlock ''hP'' pinned public, levelBlock ''hM'' memory restricted])
        \<lparr>includeHistory = None, includeState = None, maxSensitivity = Some internal,
         budgetOverride = None\<rparr>)
   = Inr [(pinned, public, Some ''session-1'', Some [''t1''], JStr ''secret''),
          (memory, public, Some ''session-1'', Some [''t1''],
           JObj [(''originalBlockHash'', JStr ''hM''),
                 (''reason'', JStr (''Sensitivity level '' @ [CHR 0x27] @ ''restricted''
                     @ [CHR 0x27] @ '' exceeds maximum '' @ [CHR 0x27] @ ''internal''
                     @ [CHR 0x27])),
                 (''placeholder'', JStr ''[REDACTED - Sensitive content removed]'')])]"
  using createRedactedStub_frame [of id 0 "levelBlock ''hM'' memory restricted" "''r''"
      "viewOf [levelBlock ''hP'' pinned public, levelBlock ''hM'' memory restricted]" internal
      "\<lparr>includeHistory = None, includeState = None, maxSensitivity = Some internal,
         budgetOverride = None\<rparr>"]
  by (simp add: fork_eval json_eval)

section \<open>Block hash\<close>

lemmas hash_eval = computeBlockHash_def hashedText_def extractStableMetaSubset_def
  stableMetaJson_def getProp_def SystemRulesCodec_def ConversationHistoryCodec_def
  ToolSchemaCodec_def objectEntries_def canonicalMessage_def trim_def isSpace_def

text \<open>
  C2. Two blocks that agree on kind, sensitivity, codec id, codec version and payload have
  the same block hash, whatever their \<open>createdAt\<close>, \<open>source\<close> and \<open>tags\<close>.
\<close>

theorem computeBlockHash_volatile_invariant:
  assumes "kind (meta b1) = kind (meta b2)" and "sensitivity (meta b1) = sensitivity (meta b2)"
    and "codecId (meta b1) = codecId (meta b2)" and "codecVersion (meta b1) = codecVersion (meta b2)"
    and "payload b1 = payload b2"
  shows "computeBlockHash sha256 (FullMeta (meta b1)) (payload b1) codec
       = computeBlockHash sha256 (FullMeta (meta b2)) (payload b2) codec"
  using assms by (simp add: computeBlockHash_def hashedText_def extractStableMetaSubset_def)

theorem computeBlockHash_volatile_invariant_witness:
  "computeBlockHash id (FullMeta (meta (rulesBlock 1000 None None)))
       (payload (rulesBlock 1000 None None)) (Some SystemRulesCodec)
     = computeBlockHash id (FullMeta (meta (rulesBlock 2000 (Some ''session-2'') (Some [''t''])))) 
       (payload (rulesBlock 2000 (Some ''session-2'') (Some [''t'']))) (Some SystemRulesCodec)
   \<and> computeBlockHash id (FullMeta (meta (rulesBlock 1000 None None)))
       (payload (rulesBlock 1000 None None)) (Some SystemRulesCodec)
     = Inr ''{\"meta\":{\"kind\":\"pinned\",\"sensitivity\":\"public\",\"codecId\":\"system-rules\",\"codecVersion\":\"1.0.0\"},\"payload\":{\"cacheable\":false,\"priority\":0,\"text\":\"Be concise\"}}''"
  using computeBlockHash_volatile_invariant [of "rulesBlock 1000 None None"
      "rulesBlock 2000 (Some ''session-2'') (Some [''t''])" id "Some SystemRulesCodec"]
  by (simp add: rulesBlock_def hash_eval json_eval)


lemma sortObjectKeys_canonValue:
  "sortObjectKeys obj =
     enumerationOrder
       (map (\<lambda>key. (key, (case map_of obj key of Some v \<Rightarrow> canonValue v | None \<Rightarrow> JNull)))
            (sort (map fst obj)))"
  by (subst sortObjectKeys.simps)
     (auto simp: canonValue_def split: option.splits json.splits
           intro!: arg_cong [where f = enumerationOrder])

lemma sameUpToKeyOrder_canonValue:
  "sameUpToKeyOrder v w \<Longrightarrow> canonValue v = canonValue w"
proof (induction rule: sameUpToKeyOrder.induct)
  case (same_refl v)
  show ?case by simp
next
  case (same_obj xs ys)
  have keys: "sort (map fst xs) = sort (map fst ys)"
    using same_obj(1,2,3)
    by (intro sorted_distinct_set_unique) simp_all
  have "(case map_of xs k of Some v \<Rightarrow> canonValue v | None \<Rightarrow> JNull)
      = (case map_of ys k of Some v \<Rightarrow> canonValue v | None \<Rightarrow> JNull)"
    if "k \<in> set (sort (map fst ys))" for k
  proof -
    from that same_obj(3) have "k \<in> set (map fst xs)" by simp
    with same_obj(4) obtain v w where "map_of xs k = Some v" "map_of ys k = Some w"
      "canonValue v = canonValue w" by blast
    then show ?thesis by simp
  qed
  then have m: "map (\<lambda>key. (key, (case map_of xs key of Some v \<Rightarrow> canonValue v | None \<Rightarrow> JNull)))
              (sort (map fst ys))
      = map (\<lambda>key. (key, (case map_of ys key of Some v \<Rightarrow> canonValue v | None \<Rightarrow> JNull)))
              (sort (map fst ys))"
    by (intro map_cong) simp_all
  have "sortObjectKeys xs = sortObjectKeys ys"
    by (simp only: sortObjectKeys_canonValue keys m)
  then show ?case by (simp add: canonValue_def)
qed

lemma sortObjectKeys_key_order:
  "sameUpToKeyOrder (JObj o1) (JObj o2) \<Longrightarrow> sortObjectKeys o1 = sortObjectKeys o2"
  using sameUpToKeyOrder_canonValue [of "JObj o1" "JObj o2"] by (simp add: canonValue_def)

text \<open>
  Two payloads that are the same up to key order have, under every key, values that are
  equal or are objects that are the same up to key order.
\<close>

lemma sameUpToKeyOrder_cases:
  assumes "sameUpToKeyOrder v w"
  shows "w = v \<or> (\<exists>xs ys. v = JObj xs \<and> w = JObj ys)"
  using assms by (cases rule: sameUpToKeyOrder.cases) auto

lemma sameUpToKeyOrder_getProp:
  assumes "sameUpToKeyOrder p1 p2"
  shows "rel_option sameUpToKeyOrder (getProp p1 k) (getProp p2 k)"
  using assms
proof (cases rule: sameUpToKeyOrder.cases)
  case same_refl
  have "rel_option sameUpToKeyOrder (getProp p1 k) (getProp p1 k)"
    by (rule option.rel_refl) (rule sameUpToKeyOrder.same_refl)
  with same_refl show ?thesis by simp
next
  case (same_obj xs ys)
  show ?thesis
  proof (cases "k \<in> set (map fst xs)")
    case True
    with same_obj(6) obtain v w where "map_of xs k = Some v" "map_of ys k = Some w"
      "sameUpToKeyOrder v w" by blast
    with same_obj(1,2) show ?thesis by (simp add: getProp_def)
  next
    case False
    with same_obj(5) have "k \<notin> set (map fst ys)" by simp
    with False have "map_of xs k = None" "map_of ys k = None"
      by (simp_all add: map_of_eq_None_iff)
    with same_obj(1,2) show ?thesis by (simp add: getProp_def)
  qed
qed

lemma getProp_cases:
  assumes "sameUpToKeyOrder p1 p2"
  obtains (eq) "getProp p2 k = getProp p1 k" "\<forall>kvs. getProp p1 k \<noteq> Some (JObj kvs)"
  | (obj) xs ys where "getProp p1 k = Some (JObj xs)" "getProp p2 k = Some (JObj ys)"
      "sameUpToKeyOrder (JObj xs) (JObj ys)"
proof -
  from sameUpToKeyOrder_getProp [OF assms, of k]
  have r: "rel_option sameUpToKeyOrder (getProp p1 k) (getProp p2 k)" .
  show thesis
  proof (cases "\<exists>kvs. getProp p1 k = Some (JObj kvs)")
    case True
    then obtain xs where x: "getProp p1 k = Some (JObj xs)" by blast
    with r obtain w where w: "getProp p2 k = Some w" "sameUpToKeyOrder (JObj xs) w"
      by (cases "getProp p2 k") auto
    from sameUpToKeyOrder_cases [OF w(2)] obtain ys where "w = JObj ys" by auto
    with x w show thesis by (auto intro: obj)
  next
    case False
    have "getProp p2 k = getProp p1 k"
    proof (cases "getProp p1 k")
      case None
      with r show ?thesis by (cases "getProp p2 k") auto
    next
      case (Some a)
      with r obtain w where w: "getProp p2 k = Some w" "sameUpToKeyOrder a w"
        by (cases "getProp p2 k") auto
      from sameUpToKeyOrder_cases [OF w(2)] False Some have "w = a" by auto
      with Some w show ?thesis by simp
    qed
    with False show thesis by (auto intro: eq)
  qed
qed

lemma sameUpToKeyOrder_nullish:
  assumes "rel_option sameUpToKeyOrder a b"
  shows "sameUpToKeyOrder (nullish a d) (nullish b d)"
proof (cases a)
  case None
  with assms show ?thesis by (cases b) (auto intro: same_refl)
next
  case (Some v)
  with assms obtain w where w: "b = Some w" "sameUpToKeyOrder v w" by (cases b) auto
  from sameUpToKeyOrder_cases [OF w(2)] show ?thesis
  proof
    assume "w = v"
    with Some w show ?thesis by (simp add: same_refl)
  next
    assume "\<exists>xs ys. v = JObj xs \<and> w = JObj ys"
    with Some w show ?thesis by auto
  qed
qed

lemma sameUpToKeyOrder_JNull: "sameUpToKeyOrder p1 p2 \<Longrightarrow> p1 = JNull \<longleftrightarrow> p2 = JNull"
  using sameUpToKeyOrder_cases [of p1 p2] by auto

text \<open>
  Objects written with the same keys in the same order, with values that are the same up to
  key order, are the same up to key order; so are the object literals in which the same
  properties are \<open>undefined\<close>.
\<close>

lemma map_of_related:
  "map fst xs = map fst ys \<Longrightarrow> list_all2 R (map snd xs) (map snd ys) \<Longrightarrow>
   rel_option R (map_of xs k) (map_of ys k)"
proof (induction xs arbitrary: ys)
  case Nil
  then show ?case by simp
next
  case (Cons x xs)
  then obtain y ys' where ys: "ys = y # ys'" by (cases ys) auto
  with Cons.prems have "fst x = fst y" "R (snd x) (snd y)" "map fst xs = map fst ys'"
    "list_all2 R (map snd xs) (map snd ys')" by simp_all
  with Cons.IH [of ys'] ys show ?case by (cases x; cases y) simp
qed

lemma sameUpToKeyOrder_pointwise:
  assumes "map fst xs = map fst ys" and "distinct (map fst xs)"
    and "list_all2 sameUpToKeyOrder (map snd xs) (map snd ys)"
  shows "sameUpToKeyOrder (JObj xs) (JObj ys)"
proof (rule same_obj)
  show "distinct (map fst xs)" by (rule assms(2))
  show "distinct (map fst ys)" using assms(1,2) by simp
  show "set (map fst xs) = set (map fst ys)" using assms(1) by simp
  show "\<forall>k \<in> set (map fst xs).
          \<exists>v w. map_of xs k = Some v \<and> map_of ys k = Some w \<and> sameUpToKeyOrder v w"
  proof
    fix k assume "k \<in> set (map fst xs)"
    then obtain v where v: "map_of xs k = Some v"
      by (metis map_of_eq_None_iff not_None_eq set_map)
    from map_of_related [OF assms(1,3), of k] v
    obtain w where "map_of ys k = Some w" "sameUpToKeyOrder v w"
      by (cases "map_of ys k") auto
    with v show "\<exists>v w. map_of xs k = Some v \<and> map_of ys k = Some w \<and> sameUpToKeyOrder v w"
      by blast
  qed
qed

lemma objLit_related:
  "map fst xs = map fst ys \<Longrightarrow>
   list_all2 (rel_option sameUpToKeyOrder) (map snd xs) (map snd ys) \<Longrightarrow>
   map fst (objLit xs) = map fst (objLit ys)
   \<and> list_all2 sameUpToKeyOrder (map snd (objLit xs)) (map snd (objLit ys))"
proof (induction xs arbitrary: ys rule: objLit.induct)
  case 1
  then show ?case by simp
next
  case (2 k rest)
  then obtain y ys' where ys: "ys = y # ys'" by (cases ys) auto
  with 2 show ?case by (cases y) auto
next
  case (3 k v rest)
  then obtain y ys' where ys: "ys = y # ys'" by (cases ys) auto
  with 3 show ?case by (cases y) (auto simp: option_rel_Some1)
qed

lemma objLit_keys: "set (map fst (objLit xs)) \<subseteq> set (map fst xs)"
  by (induction xs rule: objLit.induct) auto

lemma objLit_distinct: "distinct (map fst xs) \<Longrightarrow> distinct (map fst (objLit xs))"
proof (induction xs rule: objLit.induct)
  case 1
  then show ?case by simp
next
  case (2 k rest)
  then show ?case by simp
next
  case (3 k v rest)
  with objLit_keys [of rest] show ?case by auto
qed

lemma sortObjectKeys_cong:
  assumes "map fst xs = map fst ys" and "distinct (map fst xs)"
    and "list_all2 sameUpToKeyOrder (map snd xs) (map snd ys)"
  shows "sortObjectKeys xs = sortObjectKeys ys"
  by (rule sortObjectKeys_key_order) (rule sameUpToKeyOrder_pointwise [OF assms])

lemma sortObjectKeys_objLit_cong:
  assumes "map fst xs = map fst ys" and "distinct (map fst xs)"
    and "list_all2 (rel_option sameUpToKeyOrder) (map snd xs) (map snd ys)"
  shows "sortObjectKeys (objLit xs) = sortObjectKeys (objLit ys)"
  using objLit_related [OF assms(1,3)] objLit_distinct [OF assms(2)]
  by (intro sortObjectKeys_cong) simp_all

text \<open>
  Each built-in codec canonicalizes two payloads that are the same up to key order to the
  same value; the \<open>unsafe-text\<close> codec, which sorts nothing, when the \<open>role\<close> is not an
  object.
\<close>

lemma SystemRulesCodec_key_order:
  assumes "sameUpToKeyOrder p1 p2"
  shows "canonicalize SystemRulesCodec p1 = canonicalize SystemRulesCodec p2"
using assms
proof (cases rule: getProp_cases [where k = "''text''"])
  case eq
  have "sortObjectKeys
          [(''text'', JStr t),
           (''priority'', nullish (getProp p1 ''priority'') (JNum 0)),
           (''cacheable'', nullish (getProp p1 ''cacheable'') (JBool False))]
      = sortObjectKeys
          [(''text'', JStr t),
           (''priority'', nullish (getProp p2 ''priority'') (JNum 0)),
           (''cacheable'', nullish (getProp p2 ''cacheable'') (JBool False))]" for t
    by (rule sortObjectKeys_cong)
       (simp_all add: same_refl sameUpToKeyOrder_nullish sameUpToKeyOrder_getProp [OF assms])
  with eq show ?thesis
    by (simp add: SystemRulesCodec_def split: option.splits json.splits)
next
  case (obj xs ys)
  then show ?thesis by (simp add: SystemRulesCodec_def)
qed

lemma UserTurnCodec_key_order:
  assumes "sameUpToKeyOrder p1 p2"
  shows "canonicalize UserTurnCodec p1 = canonicalize UserTurnCodec p2"
using assms
proof (cases rule: getProp_cases [where k = "''text''"])
  case eq
  then show ?thesis by (simp add: UserTurnCodec_def)
next
  case (obj xs ys)
  then show ?thesis by (simp add: UserTurnCodec_def)
qed

lemma UnsafeTextCodec_key_order:
  assumes "sameUpToKeyOrder p1 p2" and "\<forall>kvs. getProp p1 ''role'' \<noteq> Some (JObj kvs)"
  shows "canonicalize UnsafeTextCodec p1 = canonicalize UnsafeTextCodec p2"
proof -
  have role: "getProp p2 ''role'' = getProp p1 ''role''"
    using assms(1) by (cases rule: getProp_cases [where k = "''role''"]) (use assms(2) in auto)
  show ?thesis
    using assms(1)
  proof (cases rule: getProp_cases [where k = "''text''"])
    case eq
    with role show ?thesis
      by (simp add: UnsafeTextCodec_def split: option.splits json.splits)
  next
    case (obj xs ys)
    then show ?thesis by (simp add: UnsafeTextCodec_def)
  qed
qed

lemma RedactedStubCodec_key_order:
  assumes "sameUpToKeyOrder p1 p2"
  shows "canonicalize RedactedStubCodec p1 = canonicalize RedactedStubCodec p2"
proof -
  have "sortObjectKeys (objLit
          [(''originalBlockHash'', getProp p1 ''originalBlockHash''),
           (''reason'', getProp p1 ''reason''),
           (''placeholder'', Some (nullish (getProp p1 ''placeholder'') (JStr ''[REDACTED]'')))])
      = sortObjectKeys (objLit
          [(''originalBlockHash'', getProp p2 ''originalBlockHash''),
           (''reason'', getProp p2 ''reason''),
           (''placeholder'', Some (nullish (getProp p2 ''placeholder'') (JStr ''[REDACTED]'')))])"
    by (rule sortObjectKeys_objLit_cong)
       (simp_all add: sameUpToKeyOrder_nullish sameUpToKeyOrder_getProp [OF assms])
  with sameUpToKeyOrder_JNull [OF assms] show ?thesis
    by (simp add: RedactedStubCodec_def)
qed

lemma ToolOutputCodec_key_order:
  assumes "sameUpToKeyOrder p1 p2"
  shows "canonicalize ToolOutputCodec p1 = canonicalize ToolOutputCodec p2"
proof -
  have "sortObjectKeys (objLit
          [(''toolName'', getProp p1 ''toolName''),
           (''toolCallId'', getProp p1 ''toolCallId''),
           (''output'', getProp p1 ''output'')])
      = sortObjectKeys (objLit
          [(''toolName'', getProp p2 ''toolName''),
           (''toolCallId'', getProp p2 ''toolCallId''),
           (''output'', getProp p2 ''output'')])"
    by (rule sortObjectKeys_objLit_cong)
       (simp_all add: sameUpToKeyOrder_getProp [OF assms])
  with sameUpToKeyOrder_JNull [OF assms] show ?thesis
    by (simp add: ToolOutputCodec_def)
qed

lemma StructuredReferenceCodec_key_order:
  assumes "sameUpToKeyOrder p1 p2"
  shows "canonicalize StructuredReferenceCodec p1 = canonicalize StructuredReferenceCodec p2"
using assms
proof (cases rule: getProp_cases [where k = "''title''"])
  case eq
  have "sortObjectKeys (objLit
          [(''title'', Some (JStr t)),
           (''content'', getProp p1 ''content''),
           (''sourceUrl'', Some (nullish (getProp p1 ''sourceUrl'') JNull)),
           (''mimeType'', Some (nullish (getProp p1 ''mimeType'') JNull)),
           (''cacheable'', Some (nullish (getProp p1 ''cacheable'') (JBool False)))])
      = sortObjectKeys (objLit
          [(''title'', Some (JStr t)),
           (''content'', getProp p2 ''content''),
           (''sourceUrl'', Some (nullish (getProp p2 ''sourceUrl'') JNull)),
           (''mimeType'', Some (nullish (getProp p2 ''mimeType'') JNull)),
           (''cacheable'', Some (nullish (getProp p2 ''cacheable'') (JBool False)))])" for t
    by (rule sortObjectKeys_objLit_cong)
       (simp_all add: same_refl sameUpToKeyOrder_nullish sameUpToKeyOrder_getProp [OF assms])
  with eq show ?thesis
    by (simp add: StructuredReferenceCodec_def split: option.splits json.splits)
next
  case (obj xs ys)
  then show ?thesis by (simp add: StructuredReferenceCodec_def)
qed

lemma ConversationHistoryCodec_key_order:
  assumes "sameUpToKeyOrder p1 p2"
  shows "canonicalize ConversationHistoryCodec p1 = canonicalize ConversationHistoryCodec p2"
using assms
proof (cases rule: getProp_cases [where k = "''messages''"])
  case eq
  have "sortObjectKeys
          [(''messages'', JArr ms), (''summary'', nullish (getProp p1 ''summary'') JNull)]
      = sortObjectKeys
          [(''messages'', JArr ms), (''summary'', nullish (getProp p2 ''summary'') JNull)]" for ms
    by (rule sortObjectKeys_cong)
       (simp_all add: same_refl sameUpToKeyOrder_nullish sameUpToKeyOrder_getProp [OF assms])
  with eq show ?thesis
    by (simp add: ConversationHistoryCodec_def split: option.splits json.splits sum.splits)
next
  case (obj xs ys)
  then show ?thesis by (simp add: ConversationHistoryCodec_def)
qed

lemma objectEntries_key_order:
  assumes "sameUpToKeyOrder p1 p2"
  shows "map_sum id sortObjectKeys (objectEntries (getProp p1 k))
       = map_sum id sortObjectKeys (objectEntries (getProp p2 k))"
using assms
proof (cases rule: getProp_cases [where k = k])
  case eq
  then show ?thesis by simp
next
  case (obj xs ys)
  then show ?thesis by (simp add: objectEntries_def sortObjectKeys_key_order)
qed

lemma ToolSchemaCodec_key_order:
  assumes "sameUpToKeyOrder p1 p2"
  shows "canonicalize ToolSchemaCodec p1 = canonicalize ToolSchemaCodec p2"
using assms
proof (cases rule: getProp_cases [where k = "''description''"])
  case eq
  have lit: "sortObjectKeys (objLit
          [(''name'', getProp p1 ''name''),
           (''description'', Some (JStr t)),
           (''inputSchema'', Some (JObj s)),
           (''cacheable'', Some (nullish (getProp p1 ''cacheable'') (JBool False)))])
      = sortObjectKeys (objLit
          [(''name'', getProp p2 ''name''),
           (''description'', Some (JStr t)),
           (''inputSchema'', Some (JObj s)),
           (''cacheable'', Some (nullish (getProp p2 ''cacheable'') (JBool False)))])" for t s
    by (rule sortObjectKeys_objLit_cong)
       (simp_all add: same_refl sameUpToKeyOrder_nullish sameUpToKeyOrder_getProp [OF assms])
  from objectEntries_key_order [OF assms, of "''inputSchema''"]
  have "(case objectEntries (getProp p1 ''inputSchema'') of
           Inl e \<Rightarrow> Inl e | Inr i \<Rightarrow> Inr (sortObjectKeys i))
      = (case objectEntries (getProp p2 ''inputSchema'') of
           Inl e \<Rightarrow> Inl e | Inr i \<Rightarrow> Inr (sortObjectKeys i))"
    by (auto split: sum.splits)
  with eq lit show ?thesis
    by (auto simp: ToolSchemaCodec_def split: option.splits json.splits sum.splits)
next
  case (obj xs ys)
  then show ?thesis by (simp add: ToolSchemaCodec_def)
qed

lemma BUILT_IN_CODECS_key_order:
  assumes "sameUpToKeyOrder p1 p2" and "c \<in> set BUILT_IN_CODECS"
    and "c = UnsafeTextCodec \<longrightarrow> (\<forall>kvs. getProp p1 ''role'' \<noteq> Some (JObj kvs))"
  shows "canonicalize c p1 = canonicalize c p2"
proof -
  from assms(2) consider "c = SystemRulesCodec" | "c = ToolSchemaCodec"
    | "c = StructuredReferenceCodec" | "c = ConversationHistoryCodec" | "c = ToolOutputCodec"
    | "c = RedactedStubCodec" | "c = UnsafeTextCodec" | "c = UserTurnCodec"
    by (auto simp: BUILT_IN_CODECS_def)
  then show ?thesis
  proof cases
    case 7
    with assms(1,3) show ?thesis by (simp add: UnsafeTextCodec_key_order)
  qed (simp_all add: assms(1) SystemRulesCodec_key_order ToolSchemaCodec_key_order
        StructuredReferenceCodec_key_order ConversationHistoryCodec_key_order
        ToolOutputCodec_key_order RedactedStubCodec_key_order UserTurnCodec_key_order)
qed

text \<open>
  The claim C1 read on the code: \<open>JSON.stringify\<close> sorts nothing, and \<open>sortObjectKeys\<close>
  copies arrays as they are. The texts handed to SHA-256 differ (and so do their digests,
  \<open>75c314d6\<dots>\<close> and \<open>17a02cd2\<dots>\<close> for the first pair) for two \<open>conversation-history\<close>
  payloads that differ in the key order of an object inside the \<open>content\<close> array; for one
  \<open>StableMetaSubset\<close> written in two key orders; and, with no codec, for one payload
  written in two key orders.
\<close>

theorem computeBlockHash_key_order_counterexample:
  "hashedText (FullMeta historyMeta)
       (historyPayload (JObj [(''type'', JStr ''text''), (''text'', JStr ''hi'')]))
       (Some ConversationHistoryCodec)
     \<noteq> hashedText (FullMeta historyMeta)
       (historyPayload (JObj [(''text'', JStr ''hi''), (''type'', JStr ''text'')]))
       (Some ConversationHistoryCodec)
   \<and> hashedText
         (StableMeta [(''kind'', JStr ''pinned''), (''sensitivity'', JStr ''public''),
                      (''codecId'', JStr ''test''), (''codecVersion'', JStr ''1.0.0'')])
         (JObj [(''a'', JNum 1), (''b'', JNum 2)]) None
     \<noteq> hashedText
         (StableMeta [(''codecId'', JStr ''test''), (''codecVersion'', JStr ''1.0.0''),
                      (''kind'', JStr ''pinned''), (''sensitivity'', JStr ''public'')])
         (JObj [(''a'', JNum 1), (''b'', JNum 2)]) None
   \<and> hashedText (FullMeta historyMeta) (JObj [(''a'', JNum 1), (''b'', JNum 2)]) None
     \<noteq> hashedText (FullMeta historyMeta) (JObj [(''b'', JNum 2), (''a'', JNum 1)]) None"
  by (simp add: historyMeta_def historyPayload_def hash_eval json_eval)

text \<open>
  The \<open>conversation-history\<close> codec reads the \<open>role\<close> and the \<open>content\<close> of every message
  by name, so the key order of the message objects, which are inside an array, has no
  effect either.
\<close>

lemma canonicalMessage_cong:
  "list_all2 (\<lambda>a b. (a = JNull \<longleftrightarrow> b = JNull)
                    \<and> getProp a ''role'' = getProp b ''role''
                    \<and> getProp a ''content'' = getProp b ''content'') ms1 ms2 \<Longrightarrow>
   mapE canonicalMessage ms1 = mapE canonicalMessage ms2"
  by (induction ms1 ms2 rule: list_all2_induct) (auto simp: canonicalMessage_def)

lemma ConversationHistoryCodec_message_keys:
  assumes "getProp p1 ''messages'' = Some (JArr ms1)"
    and "getProp p2 ''messages'' = Some (JArr ms2)"
    and "list_all2 (\<lambda>a b. (a = JNull \<longleftrightarrow> b = JNull)
                    \<and> getProp a ''role'' = getProp b ''role''
                    \<and> getProp a ''content'' = getProp b ''content'') ms1 ms2"
    and "getProp p2 ''summary'' = getProp p1 ''summary''"
  shows "canonicalize ConversationHistoryCodec p2 = canonicalize ConversationHistoryCodec p1"
  using assms(1,2,4) canonicalMessage_cong [OF assms(3)]
  by (simp add: ConversationHistoryCodec_def split: sum.splits)

text \<open>
  C1, amended. The block hash is the SHA-256 of the serialization of \<open>{meta, payload}\<close>,
  serialized as it is: \<open>meta\<close> is the four stable fields of a full metadata object in the
  order kind, sensitivity, codecId, codecVersion, or a \<open>StableMetaSubset\<close> object as the
  caller wrote it; \<open>payload\<close> is what the codec's \<open>canonicalize\<close> returns, or the payload
  itself without a codec; and the hash computation throws what \<open>canonicalize\<close> throws.
  This holds for every codec. With full metadata and each built-in codec, two payloads
  that are the same up to key order outside arrays have the same hash; for the
  \<open>unsafe-text\<close> codec, which sorts nothing, when the payload's \<open>role\<close> is not an object.
  With the \<open>conversation-history\<close> codec, two payloads with the same summary whose
  messages have, one by one, the same role and the same content have the same hash. The
  payloads are JavaScript values.
\<close>

theorem computeBlockHash_key_order:
  assumes "jsValue p1" and "jsValue p2" and "sameUpToKeyOrder p1 p2"
    and "c \<in> set BUILT_IN_CODECS"
    and "c = UnsafeTextCodec \<longrightarrow> (\<forall>kvs. getProp p1 ''role'' \<noteq> Some (JObj kvs))"
  shows "computeBlockHash sha256 metaArg p1 codec
           = (case (case codec of Some c' \<Rightarrow> canonicalize c' p1 | None \<Rightarrow> Inr p1) of
                Inl e \<Rightarrow> Inl e
              | Inr canonicalized \<Rightarrow>
                  Inr (sha256 (JSON_stringify (JObj
                    [(''meta'',
                        (case metaArg of
                           FullMeta m \<Rightarrow>
                             JObj [(''kind'', JStr (kindName (kind m))),
                                   (''sensitivity'', JStr (sensitivityName (sensitivity m))),
                                   (''codecId'', JStr (codecId m)),
                                   (''codecVersion'', JStr (codecVersion m))]
                         | StableMeta obj \<Rightarrow> JObj obj)),
                     (''payload'', canonicalized)]))))
       \<and> computeBlockHash sha256 (FullMeta m) p2 (Some c)
           = computeBlockHash sha256 (FullMeta m) p1 (Some c)
       \<and> (\<forall>h ms1 ms2.
             jsValue h
             \<and> getProp p1 ''messages'' = Some (JArr ms1)
             \<and> getProp h ''messages'' = Some (JArr ms2)
             \<and> list_all2 (\<lambda>a b. (a = JNull \<longleftrightarrow> b = JNull)
                                \<and> getProp a ''role'' = getProp b ''role''
                                \<and> getProp a ''content'' = getProp b ''content'') ms1 ms2
             \<and> getProp h ''summary'' = getProp p1 ''summary'' \<longrightarrow>
             computeBlockHash sha256 (FullMeta m) h (Some ConversationHistoryCodec)
               = computeBlockHash sha256 (FullMeta m) p1 (Some ConversationHistoryCodec))"
proof -
  have first: "computeBlockHash sha256 metaArg p1 codec
           = (case (case codec of Some c' \<Rightarrow> canonicalize c' p1 | None \<Rightarrow> Inr p1) of
                Inl e \<Rightarrow> Inl e
              | Inr canonicalized \<Rightarrow>
                  Inr (sha256 (JSON_stringify (JObj
                    [(''meta'',
                        (case metaArg of
                           FullMeta m \<Rightarrow>
                             JObj [(''kind'', JStr (kindName (kind m))),
                                   (''sensitivity'', JStr (sensitivityName (sensitivity m))),
                                   (''codecId'', JStr (codecId m)),
                                   (''codecVersion'', JStr (codecVersion m))]
                         | StableMeta obj \<Rightarrow> JObj obj)),
                     (''payload'', canonicalized)]))))"
    by (cases metaArg)
       (simp_all add: computeBlockHash_def hashedText_def extractStableMetaSubset_def
          stableMetaJson_def del: JSON_stringify.simps split: sum.splits)
  have second: "computeBlockHash sha256 (FullMeta m) p2 (Some c)
           = computeBlockHash sha256 (FullMeta m) p1 (Some c)"
    using BUILT_IN_CODECS_key_order [OF assms(3,4,5)]
    by (simp add: computeBlockHash_def hashedText_def)
  have third: "computeBlockHash sha256 (FullMeta m) h (Some ConversationHistoryCodec)
               = computeBlockHash sha256 (FullMeta m) p1 (Some ConversationHistoryCodec)"
    if "getProp p1 ''messages'' = Some (JArr ms1)" "getProp h ''messages'' = Some (JArr ms2)"
      "list_all2 (\<lambda>a b. (a = JNull \<longleftrightarrow> b = JNull)
                                \<and> getProp a ''role'' = getProp b ''role''
                                \<and> getProp a ''content'' = getProp b ''content'') ms1 ms2"
      "getProp h ''summary'' = getProp p1 ''summary''" for h ms1 ms2
    using ConversationHistoryCodec_message_keys [OF that]
    by (simp add: computeBlockHash_def hashedText_def)
  from first second third show ?thesis by blast
qed

theorem computeBlockHash_key_order_witness:
  "computeBlockHash id (FullMeta toolSchemaMeta) searchTool2 (Some ToolSchemaCodec)
     = computeBlockHash id (FullMeta toolSchemaMeta) searchTool1 (Some ToolSchemaCodec)
   \<and> computeBlockHash id (FullMeta toolSchemaMeta) searchTool1 (Some ToolSchemaCodec)
     = Inr ''{\"meta\":{\"kind\":\"reference\",\"sensitivity\":\"public\",\"codecId\":\"tool-schema\",\"codecVersion\":\"1.0.0\"},\"payload\":{\"cacheable\":false,\"description\":\"Search the web\",\"inputSchema\":{\"properties\":{\"limit\":{\"type\":\"number\"},\"q\":{\"type\":\"string\"}},\"required\":[\"q\"],\"type\":\"object\"},\"name\":\"search\"}}''
   \<and> computeBlockHash id (FullMeta historyMeta) (historyPayloadContentFirst (JStr ''hi''))
       (Some ConversationHistoryCodec)
     = computeBlockHash id (FullMeta historyMeta) (historyPayload (JStr ''hi''))
       (Some ConversationHistoryCodec)"
proof -
  have props: "sameUpToKeyOrder
      (JObj [(''q'', JObj [(''type'', JStr ''string'')]),
             (''limit'', JObj [(''type'', JStr ''number'')])])
      (JObj [(''limit'', JObj [(''type'', JStr ''number'')]),
             (''q'', JObj [(''type'', JStr ''string'')])])"
    by (rule same_obj) (auto intro: same_refl)
  have schema: "sameUpToKeyOrder
      (JObj [(''type'', JStr ''object''),
             (''properties'', JObj [(''q'', JObj [(''type'', JStr ''string'')]),
                                    (''limit'', JObj [(''type'', JStr ''number'')])]),
             (''required'', JArr [JStr ''q''])])
      (JObj [(''required'', JArr [JStr ''q'']),
             (''properties'', JObj [(''limit'', JObj [(''type'', JStr ''number'')]),
                                    (''q'', JObj [(''type'', JStr ''string'')])]),
             (''type'', JStr ''object'')])"
    by (rule same_obj) (auto intro: same_refl props)
  have same: "sameUpToKeyOrder searchTool1 searchTool2"
    unfolding searchTool1_def searchTool2_def
    by (rule same_obj) (auto intro: same_refl schema)
  have js1: "jsValue searchTool1"
    by (simp add: searchTool1_def enumerationOrder_def isArrayIndex_def isDigit_def)
  have js2: "jsValue searchTool2"
    by (simp add: searchTool2_def enumerationOrder_def isArrayIndex_def isDigit_def)
  have mem: "ToolSchemaCodec \<in> set BUILT_IN_CODECS"
    by (simp add: BUILT_IN_CODECS_def)
  have role: "ToolSchemaCodec = UnsafeTextCodec \<longrightarrow>
      (\<forall>kvs. getProp searchTool1 ''role'' \<noteq> Some (JObj kvs))"
    by (simp add: getProp_def searchTool1_def)
  have jh: "jsValue (historyPayload (JStr ''hi''))"
    "jsValue (historyPayloadContentFirst (JStr ''hi''))"
    by (simp_all add: historyPayload_def historyPayloadContentFirst_def enumerationOrder_def
        isArrayIndex_def isDigit_def)
  have roleh: "ToolSchemaCodec = UnsafeTextCodec \<longrightarrow>
      (\<forall>kvs. getProp (historyPayload (JStr ''hi'')) ''role'' \<noteq> Some (JObj kvs))"
    by (simp add: getProp_def historyPayload_def)
  from computeBlockHash_key_order [OF js1 js2 same mem role,
      of id "FullMeta toolSchemaMeta" "Some ToolSchemaCodec" toolSchemaMeta]
    computeBlockHash_key_order [OF jh(1) jh(1) same_refl mem roleh,
      of id "FullMeta historyMeta" None historyMeta]
    jh(2)
  show ?thesis
    by (simp add: toolSchemaMeta_def searchTool1_def historyPayload_def
        historyPayloadContentFirst_def hash_eval json_eval)
qed

section \<open>Provenance of compaction successors\<close>

lemma computeBlockHash_no_codec:
  "computeBlockHash sha256 m p None = Inr (sha256 (JSON_stringify (JObj
      [(''meta'', (case m of FullMeta fm \<Rightarrow> stableMetaJson (extractStableMetaSubset fm)
                   | StableMeta obj \<Rightarrow> JObj obj)),
       (''payload'', p)])))"
  by (simp add: computeBlockHash_def hashedText_def del: JSON_stringify.simps)

lemma prunedFrom_mono: "prunedFrom sha256 S r \<Longrightarrow> S \<subseteq> T \<Longrightarrow> prunedFrom sha256 T r"
  unfolding prunedFrom_def by blast

lemma keepLoop_kept:
  "keepLoop sha256 config toKeep (kept, replaced) = Inr (kept', replaced') \<Longrightarrow>
   \<forall>r \<in> set kept. prunedFrom sha256 S r \<Longrightarrow> set toKeep \<subseteq> S \<Longrightarrow>
   \<forall>r \<in> set kept'. prunedFrom sha256 S r"
proof (induction toKeep arbitrary: kept replaced)
  case Nil
  then show ?case by simp
next
  case (Cons block rest)
  show ?case
  proof (cases "isLarge (payload block) (maxRawTailChars config)
              \<and> (\<not> isError (payload block) \<or> \<not> preserveErrorTail config)")
    case True
    with Cons.prems(1) obtain replacementBlock where
      rb: "createReplacementBlock sha256 block
             (truncatedPayload (payload block) (maxRawTailChars config))
             ''tool_output_prune'' ''1.0.0'' = Inr replacementBlock"
      and rec: "keepLoop sha256 config rest (kept @ [replacementBlock], replaced @ [block])
             = Inr (kept', replaced')"
      by (auto split: if_splits sum.splits)
    from rb Cons.prems(3) have "prunedFrom sha256 S replacementBlock"
      unfolding prunedFrom_def by auto
    with Cons.prems(2) have "\<forall>r \<in> set (kept @ [replacementBlock]). prunedFrom sha256 S r"
      by simp
    from Cons.IH [OF rec this] Cons.prems(3) show ?thesis by simp
  next
    case False
    with Cons.prems(1) have rec: "keepLoop sha256 config rest (kept @ [block], replaced)
        = Inr (kept', replaced')"
      by (auto split: if_splits)
    from Cons.prems(3) have "prunedFrom sha256 S block"
      unfolding prunedFrom_def by simp
    with Cons.prems(2) have "\<forall>r \<in> set (kept @ [block]). prunedFrom sha256 S r" by simp
    from Cons.IH [OF rec this] Cons.prems(3) show ?thesis by simp
  qed
qed

lemma set_sliceLast: "set (sliceLast xs n) \<subseteq> set xs"
  by (auto simp: sliceLast_def dest: in_set_dropD)

lemma toolLoop_kept:
  "toolLoop sha256 config groups (kept, removed, replaced) = Inr (kept', removed', replaced') \<Longrightarrow>
   \<forall>r \<in> set kept. prunedFrom sha256 S r \<Longrightarrow>
   (\<forall>g \<in> set groups. set (snd g) \<subseteq> S) \<Longrightarrow>
   \<forall>r \<in> set kept'. prunedFrom sha256 S r"
proof (induction groups arbitrary: kept removed replaced)
  case Nil
  then show ?case by simp
next
  case (Cons g rest)
  obtain toolId toolBlocks where g: "g = (toolId, toolBlocks)" by (cases g)
  let ?sorted = "sort_key (\<lambda>b. createdAt (meta b)) toolBlocks"
  let ?toKeep = "sliceLast ?sorted (maxOutputsPerTool config)"
  from Cons.prems(1) g obtain k1 r1 where
    k: "keepLoop sha256 config ?toKeep (kept, replaced) = Inr (k1, r1)"
    and rec: "toolLoop sha256 config rest
        (k1, removed @ sliceButLast ?sorted (maxOutputsPerTool config), r1)
        = Inr (kept', removed', replaced')"
    by (auto simp: Let_def split: sum.splits)
  from Cons.prems(3) g have "set toolBlocks \<subseteq> S" by simp
  with set_sliceLast [of ?sorted "maxOutputsPerTool config"] have "set ?toKeep \<subseteq> S" by auto
  from keepLoop_kept [OF k Cons.prems(2) this]
  have "\<forall>r \<in> set k1. prunedFrom sha256 S r" .
  from Cons.IH [OF rec this] Cons.prems(3) show ?case by simp
qed

lemma set_addToGroup:
  "(\<Union>g \<in> set (addToGroup m k x). set (snd g)) = insert x (\<Union>g \<in> set m. set (snd g))"
  by (induction m k x rule: addToGroup.induct) auto

lemma set_groupByTool_aux:
  "(\<Union>g \<in> set (foldl (\<lambda>byTool block. addToGroup byTool (codecId (meta block)) block) m bs).
      set (snd g)) = set bs \<union> (\<Union>g \<in> set m. set (snd g))"
  by (induction bs arbitrary: m) (auto simp: set_addToGroup)

lemma set_groupByTool: "(\<Union>g \<in> set (groupByTool bs). set (snd g)) = set bs"
  using set_groupByTool_aux [of "[]" bs] by (simp add: groupByTool_def)

lemma pruneToolOutputs_blocks:
  assumes "pruneToolOutputs sha256 bs config = Inr res"
  shows "\<forall>r \<in> set (p_blocks res). prunedFrom sha256 (set bs) r"
proof -
  let ?tools = "filter (\<lambda>b. kind (meta b) = tool_output) bs"
  from assms obtain kept removed replaced where
    t: "toolLoop sha256 config (groupByTool ?tools) ([], [], []) = Inr (kept, removed, replaced)"
    and res: "p_blocks res = filter (\<lambda>b. kind (meta b) \<noteq> tool_output) bs @ kept"
    by (auto simp: pruneToolOutputs_def Let_def split: sum.splits)
  have "\<forall>g \<in> set (groupByTool ?tools). set (snd g) \<subseteq> set bs"
    using set_groupByTool [of ?tools] by auto
  from toolLoop_kept [OF t _ this] have "\<forall>r \<in> set kept. prunedFrom sha256 (set bs) r" by simp
  with res show ?thesis by (auto simp: prunedFrom_def)
qed


text \<open>
  The claim C7 read on the code: the summary block that \<open>AnthropicSummarizer\<close> returns
  carries the tag \<open>summarized\<close> and a source ending in \<open>:summarized\<close>, neither
  \<open>compacted:summarize_history\<close> nor \<open>:compacted\<close>.
\<close>

theorem summarize_provenance_counterexample:
  "map_sum id (\<lambda>b. (source (meta b), tags (meta b)))
     (summarize id 5000 ''short summary'' [levelBlock ''hH'' history public] 100)
   = Inr (Some ''session-1:summarized'', Some [''t1'', ''summarized''])"
  by (simp add: summarize_def computeBlockHash_no_codec levelBlock_def sourceOrUnknown_def
      Let_def del: JSON_stringify.simps)

text \<open>
  C7, amended. A replacement block made by \<open>createReplacementBlock\<close> has the original's
  tags followed by \<open>compacted:<method>\<close>, the source \<open><original source or unknown>:compacted\<close>,
  the new payload, and the hash computed from the original's metadata and the new payload.
  Every block that \<open>pruneToolOutputs\<close> returns is an input block or such a replacement of
  an input block with method \<open>tool_output_prune\<close>. The summary block of a non-empty list
  of blocks has the first block's tags followed by \<open>summarized\<close>, the source
  \<open><first source or unknown>:summarized\<close>, kind \<open>history\<close>, the summary payload, and the
  hash computed from that payload.
\<close>

theorem compaction_provenance:
  assumes "bs = firstBlock # rest"
  shows "(\<exists>r. createReplacementBlock sha256 original newPayload method version = Inr r
            \<and> tags (meta r) = Some (orEmpty (tags (meta original)) @ [''compacted:'' @ method])
            \<and> source (meta r) = Some (sourceOrUnknown (meta original) @ '':compacted'')
            \<and> payload r = newPayload
            \<and> computeBlockHash sha256 (FullMeta (meta original)) newPayload None
                 = Inr (blockHash r))
       \<and> (\<forall>res. pruneToolOutputs sha256 input config = Inr res \<longrightarrow>
            (\<forall>r \<in> set (p_blocks res).
               r \<in> set input
               \<or> (\<exists>b \<in> set input. \<exists>p.
                     createReplacementBlock sha256 b p ''tool_output_prune'' ''1.0.0'' = Inr r)))
       \<and> (\<exists>r. summarize sha256 nowMs summary bs targetTokens = Inr r
            \<and> tags (meta r) = Some (orEmpty (tags (meta firstBlock)) @ [''summarized''])
            \<and> source (meta r) = Some (sourceOrUnknown (meta firstBlock) @ '':summarized'')
            \<and> kind (meta r) = history
            \<and> payload r = JObj [(''summary'', JStr summary),
                                 (''originalBlockCount'', JNum (int (length bs))),
                                 (''summarizedAt'', JNum nowMs)]
            \<and> computeBlockHash sha256
                 (FullMeta ((meta firstBlock)
                    \<lparr>source := Some (sourceOrUnknown (meta firstBlock) @ '':summarized'')\<rparr>))
                 (payload r) None
                 = Inr (blockHash r))"
proof -
  have prune: "\<forall>res. pruneToolOutputs sha256 input config = Inr res \<longrightarrow>
            (\<forall>r \<in> set (p_blocks res).
               r \<in> set input
               \<or> (\<exists>b \<in> set input. \<exists>p.
                     createReplacementBlock sha256 b p ''tool_output_prune'' ''1.0.0'' = Inr r))"
    using pruneToolOutputs_blocks [of sha256 input config]
    unfolding prunedFrom_def by blast
  have rest: "(\<exists>r. createReplacementBlock sha256 original newPayload method version = Inr r
            \<and> tags (meta r) = Some (orEmpty (tags (meta original)) @ [''compacted:'' @ method])
            \<and> source (meta r) = Some (sourceOrUnknown (meta original) @ '':compacted'')
            \<and> payload r = newPayload
            \<and> computeBlockHash sha256 (FullMeta (meta original)) newPayload None
                 = Inr (blockHash r))
       \<and> (\<exists>r. summarize sha256 nowMs summary bs targetTokens = Inr r
            \<and> tags (meta r) = Some (orEmpty (tags (meta firstBlock)) @ [''summarized''])
            \<and> source (meta r) = Some (sourceOrUnknown (meta firstBlock) @ '':summarized'')
            \<and> kind (meta r) = history
            \<and> payload r = JObj [(''summary'', JStr summary),
                                 (''originalBlockCount'', JNum (int (length bs))),
                                 (''summarizedAt'', JNum nowMs)]
            \<and> computeBlockHash sha256
                 (FullMeta ((meta firstBlock)
                    \<lparr>source := Some (sourceOrUnknown (meta firstBlock) @ '':summarized'')\<rparr>))
                 (payload r) None
                 = Inr (blockHash r))"
    using assms
    by (simp add: createReplacementBlock_def summarize_def computeBlockHash_no_codec Let_def
        del: JSON_stringify.simps)
  from prune rest show ?thesis by blast
qed

lemmas prune_eval = pruneToolOutputs_def groupByTool_def sliceLast_def sliceButLast_def
  isLarge_def isError_def truncatedPayload_def truncateTail_def toolBlock_def testBlock_def
  createReplacementBlock_def sourceOrUnknown_def getProp_def natToString.simps digitChar_def

theorem compaction_provenance_witness:
  "map_sum id (\<lambda>res. map (\<lambda>b. (source (meta b), tags (meta b), payload b)) (p_blocks res))
     (pruneToolOutputs id
        [toolBlock ''h1'' 1 ''aaaaaaaaaaaa'', toolBlock ''h2'' 3 ''bbbbbbbbbbbbbbc'',
         toolBlock ''h3'' 2 ''cc'', testBlock ''hP'' pinned]
        \<lparr>maxRawTailChars = 5, preserveErrorTail = True, maxOutputsPerTool = 2\<rparr>)
   = Inr [(None, None, JStr ''x''),
          (Some ''run-1'', None, JObj [(''output'', JStr ''cc''), (''exitCode'', JNum 0)]),
          (Some ''run-1:compacted'', Some [''compacted:tool_output_prune''],
           JObj [(''output'', JStr (''... [truncated 10 chars] ...'' @ [CHR 0x0A] @ ''bbbbc'')),
                 (''exitCode'', JNum 0), (''_truncated'', JBool True)])]
   \<and> map_sum id (\<lambda>b. (kind (meta b), source (meta b), tags (meta b)))
       (summarize id 5000 ''short summary'' [levelBlock ''hH'' history public] 100)
     = Inr (history, Some ''session-1:summarized'', Some [''t1'', ''summarized''])"
  using compaction_provenance [of "[levelBlock ''hH'' history public]"
      "levelBlock ''hH'' history public" "[]" id "toolBlock ''h2'' 3 ''bbbbbbbbbbbbbbc''"
      "JObj [(''output'', JStr ''x'')]" "''tool_output_prune''" "''1.0.0''"
      "[toolBlock ''h1'' 1 ''aaaaaaaaaaaa'', toolBlock ''h2'' 3 ''bbbbbbbbbbbbbbc'',
         toolBlock ''h3'' 2 ''cc'', testBlock ''hP'' pinned]"
      "\<lparr>maxRawTailChars = 5, preserveErrorTail = True, maxOutputsPerTool = 2\<rparr>"
      5000 "''short summary''" 100]
  by (simp add: prune_eval summarize_def levelBlock_def computeBlockHash_no_codec Let_def
      del: JSON_stringify.simps)

end
